theory Spec2Isabelle
  imports Main
begin

section \<open>Python values and strings\<close>

text \<open>
  The scraper is a Python script. Strings are modelled as \<open>string\<close> (lists of
  8-bit characters), so the case mapping and the whitespace test below cover the ASCII
  range; JSON documents and the dynamically typed values the script passes around are
  the datatype \<open>json\<close> (the script only ever tests a number for being zero, so
  numbers are integers here). An exception is a value of type \<open>exn\<close>, with
  \<open>External\<close> for the exceptions of the network and the libraries, and a
  computation that can raise returns \<open>exn + 'a\<close> with \<open>Inl\<close> for the raise.
\<close>

datatype exn = AttributeError | KeyError | TypeError | IndexError | ValueError | External string

datatype json =
    JNull
  | JBool bool
  | JNum int
  | JStr string
  | JArr "json list"
  | JObj "(string \<times> json) list"

definition isspace :: "char \<Rightarrow> bool" where
  "isspace c = (c \<in> set [CHR '' '', CHR 0x09, CHR 0x0A, CHR 0x0B, CHR 0x0C, CHR 0x0D,
                          CHR 0x1C, CHR 0x1D, CHR 0x1E, CHR 0x1F])"

definition lstrip :: "string \<Rightarrow> string" where
  "lstrip s = dropWhile isspace s"

definition rstrip :: "string \<Rightarrow> string" where
  "rstrip s = rev (dropWhile isspace (rev s))"

definition strip :: "string \<Rightarrow> string" where
  "strip s = lstrip (rstrip s)"

definition rstrip_slash :: "string \<Rightarrow> string" where
  "rstrip_slash s = rev (dropWhile (\<lambda>c. c = CHR ''/'') (rev s))"

text \<open>The ASCII case mapping of \<^verbatim>\<open>str.lower\<close> and \<^verbatim>\<open>str.upper\<close>.\<close>

definition lower_char :: "char \<Rightarrow> char" where
  "lower_char c =
     (case map_of (zip ''ABCDEFGHIJKLMNOPQRSTUVWXYZ'' ''abcdefghijklmnopqrstuvwxyz'') c of
        Some d \<Rightarrow> d | None \<Rightarrow> c)"

definition upper_char :: "char \<Rightarrow> char" where
  "upper_char c =
     (case map_of (zip ''abcdefghijklmnopqrstuvwxyz'' ''ABCDEFGHIJKLMNOPQRSTUVWXYZ'') c of
        Some d \<Rightarrow> d | None \<Rightarrow> c)"

definition lower :: "string \<Rightarrow> string" where
  "lower s = map lower_char s"

definition capitalize :: "string \<Rightarrow> string" where
  "capitalize s = (case s of [] \<Rightarrow> [] | c # cs \<Rightarrow> upper_char c # map lower_char cs)"

fun startswith :: "string \<Rightarrow> string \<Rightarrow> bool" where
  "startswith [] s = True"
| "startswith (p # ps) [] = False"
| "startswith (p # ps) (c # cs) = (p = c \<and> startswith ps cs)"

text \<open>\<open>substr_in needle hay\<close> is Python's \<^verbatim>\<open>needle in hay\<close> on strings.\<close>

fun substr_in :: "string \<Rightarrow> string \<Rightarrow> bool" where
  "substr_in needle [] = (needle = [])"
| "substr_in needle (c # cs) = (startswith needle (c # cs) \<or> substr_in needle cs)"

text \<open>Truthiness of a value, as \<^verbatim>\<open>if x\<close>, \<^verbatim>\<open>x or y\<close> and \<^verbatim>\<open>not x\<close> test it.\<close>

fun truthy :: "json \<Rightarrow> bool" where
  "truthy JNull = False"
| "truthy (JBool b) = b"
| "truthy (JNum n) = (n \<noteq> 0)"
| "truthy (JStr s) = (s \<noteq> [])"
| "truthy (JArr xs) = (xs \<noteq> [])"
| "truthy (JObj kvs) = (kvs \<noteq> [])"

definition py_or :: "json \<Rightarrow> json \<Rightarrow> json" where
  "py_or a b = (if truthy a then a else b)"

text \<open>
  A dictionary loaded from JSON keeps the last value of a repeated key.
  \<open>py_get x k d\<close> is \<^verbatim>\<open>x.get(k, d)\<close>: only a dict has the method.
\<close>

definition dict_lookup :: "(string \<times> json) list \<Rightarrow> string \<Rightarrow> json option" where
  "dict_lookup kvs k = map_of (rev kvs) k"

fun py_get :: "json \<Rightarrow> string \<Rightarrow> json \<Rightarrow> exn + json" where
  "py_get (JObj kvs) k d = Inr (case dict_lookup kvs k of Some v \<Rightarrow> v | None \<Rightarrow> d)"
| "py_get _ k d = Inl AttributeError"

text \<open>\<^verbatim>\<open>x.strip()\<close>: only a string has the method.\<close>

fun py_strip :: "json \<Rightarrow> exn + string" where
  "py_strip (JStr s) = Inr (strip s)"
| "py_strip _ = Inl AttributeError"

section \<open>Job records\<close>

record job =
  title :: string
  department :: string
  location :: string
  url :: json
  company :: string
  company_website :: string

text \<open>
  \<^verbatim>\<open>make_job(title, department, location, url, company, company_website="")\<close>.
  The three \<^verbatim>\<open>.strip()\<close> calls raise on a value that is not a string.
\<close>

definition make_job :: "json \<Rightarrow> json \<Rightarrow> json \<Rightarrow> json \<Rightarrow> string \<Rightarrow> exn + job" where
  "make_job t d l u c =
     (case py_strip t of Inl e \<Rightarrow> Inl e | Inr t' \<Rightarrow>
      case py_strip (py_or d (JStr ''General'')) of Inl e \<Rightarrow> Inl e | Inr d' \<Rightarrow>
      case py_strip (py_or l (JStr ''Not specified'')) of Inl e \<Rightarrow> Inl e | Inr l' \<Rightarrow>
      Inr \<lparr>title = t', department = d', location = l', url = u, company = c,
           company_website = []\<rparr>)"

section \<open>ATS detection\<close>

datatype ats = Greenhouse | Lever | Ashby | AshbyEmbedded | Workable | Rippling | YC

text \<open>The character class \<^verbatim>\<open>[a-zA-Z0-9_-]\<close> of the slug patterns.\<close>

definition slug_char :: "char \<Rightarrow> bool" where
  "slug_char c = (let n = (of_char c :: nat) in
     (97 \<le> n \<and> n \<le> 122) \<or> (65 \<le> n \<and> n \<le> 90) \<or> (48 \<le> n \<and> n \<le> 57) \<or>
     c = CHR ''_'' \<or> c = CHR ''-'')"

text \<open>
  \<open>re_search_run lit cls s\<close> is group 1 of \<^verbatim>\<open>re.search(LIT + '([CLS]+)', s)\<close> for a
  literal \<open>lit\<close> and a character class \<open>cls\<close>: the leftmost place where the literal
  is followed by at least one character of the class, and the longest run there.
\<close>

fun re_search_run :: "string \<Rightarrow> (char \<Rightarrow> bool) \<Rightarrow> string \<Rightarrow> string option" where
  "re_search_run lit cls [] = None"
| "re_search_run lit cls (c # cs) =
     (if startswith lit (c # cs) \<and> takeWhile cls (drop (length lit) (c # cs)) \<noteq> []
      then Some (takeWhile cls (drop (length lit) (c # cs)))
      else re_search_run lit cls cs)"

definition re_search_slug :: "string \<Rightarrow> string \<Rightarrow> string option" where
  "re_search_slug lit s = re_search_run lit slug_char s"

text \<open>\<^verbatim>\<open>re.search(p1, s) or re.search(p2, s) or ...\<close>: the first pattern that matches.\<close>

fun first_slug :: "string list \<Rightarrow> string \<Rightarrow> string option" where
  "first_slug [] s = None"
| "first_slug (lit # lits) s =
     (case re_search_slug lit s of Some g \<Rightarrow> Some g | None \<Rightarrow> first_slug lits s)"

definition detect_ats_from_html :: "string \<Rightarrow> string \<Rightarrow> ats option \<times> string option" where
  "detect_ats_from_html html page_url =
     (if html = [] then (None, None)
      else if substr_in ''ashby_jid='' html then
        (case re_search_slug ''ashbyhq.com/'' html of
           Some g \<Rightarrow> (Some Ashby, Some g)
         | None \<Rightarrow> (Some AshbyEmbedded, Some page_url))
      else if substr_in ''jobs.ashbyhq.com'' html then
        (case re_search_slug ''jobs.ashbyhq.com/'' html of
           Some g \<Rightarrow> (Some Ashby, Some g)
         | None \<Rightarrow> (None, None))
      else if substr_in ''greenhouse.io'' html \<or> substr_in ''grnh.se'' html then
        (case first_slug [''boards.greenhouse.io/'', ''job-boards.greenhouse.io/'',
                          ''greenhouse.io/embed/job_board?for=''] html of
           Some g \<Rightarrow> (Some Greenhouse, Some g)
         | None \<Rightarrow> (None, None))
      else if substr_in ''lever.co'' html then
        (case re_search_slug ''jobs.lever.co/'' html of
           Some g \<Rightarrow> (Some Lever, Some g)
         | None \<Rightarrow> (None, None))
      else if substr_in ''apply.workable.com'' html \<or> substr_in ''workable.com'' html then
        (case re_search_slug ''apply.workable.com/'' html of
           Some g \<Rightarrow> (Some Workable, Some g)
         | None \<Rightarrow> (None, None))
      else if substr_in ''ats.rippling.com'' html \<or> substr_in ''rippling-ats.com'' html then
        (case re_search_slug ''ats.rippling.com/'' html of
           Some g \<Rightarrow> (Some Rippling, Some g)
         | None \<Rightarrow> (None, None))
      else (None, None))"

definition url_checks :: "(string \<times> ats) list" where
  "url_checks =
     [(''boards.greenhouse.io/'', Greenhouse),
      (''job-boards.greenhouse.io/'', Greenhouse),
      (''jobs.lever.co/'', Lever),
      (''jobs.ashbyhq.com/'', Ashby),
      (''ashbyhq.com/'', Ashby),
      (''apply.workable.com/'', Workable),
      (''ats.rippling.com/'', Rippling)]"

fun first_check :: "(string \<times> ats) list \<Rightarrow> string \<Rightarrow> ats option \<times> string option" where
  "first_check [] u = (None, None)"
| "first_check ((lit, a) # rest) u =
     (case re_search_slug lit u of Some g \<Rightarrow> (Some a, Some g) | None \<Rightarrow> first_check rest u)"

definition detect_ats_from_url :: "string \<Rightarrow> ats option \<times> string option" where
  "detect_ats_from_url u = (if u = [] then (None, None) else first_check url_checks u)"

section \<open>The outside world\<close>

text \<open>
  Every network access is recorded in a log, which is the state the model threads
  through the program: \<open>Get\<close> for \<^verbatim>\<open>requests.get\<close>, \<open>Post\<close> for \<^verbatim>\<open>requests.post\<close>,
  \<open>Browse\<close> for a page load in the headless browser. A call is logged whether it
  succeeds or raises.
\<close>

datatype call = Get string | Post string | Browse string

type_synonym log = "call list"

text \<open>What the script reads from a \<^verbatim>\<open>requests\<close> response.\<close>

record response =
  status_code :: int
  r_text :: string
  r_url :: string
  r_json :: "exn + json"

text \<open>
  What the script reads from a parsed document: the anchors that carry an
  \<^verbatim>\<open>href\<close>, each with the strings below it and below its parent; the contents of the
  \<^verbatim>\<open>application/ld+json\<close> scripts; and the elements whose class matches the
  job keywords, each with its first anchor and its strings.
\<close>

record anchor =
  href :: string
  a_strings :: "string list"
  parent_strings :: "string list option"

record container =
  c_anchor :: "anchor option"
  c_strings :: "string list"

record soup =
  anchors :: "anchor list"
  ld_scripts :: "string option list"
  containers :: "container list"

text \<open>
  \<^verbatim>\<open>tag.get_text(strip=True)\<close> strips every string below the tag, drops the empty ones
  and concatenates the rest; \<^verbatim>\<open>tag.get_text(" ", strip=True)\<close> joins them with a space.
\<close>

definition stripped_strings :: "string list \<Rightarrow> string list" where
  "stripped_strings strs = filter (\<lambda>s. s \<noteq> []) (map strip strs)"

definition get_text_strip :: "string list \<Rightarrow> string" where
  "get_text_strip strs = concat (stripped_strings strs)"

fun join_space :: "string list \<Rightarrow> string" where
  "join_space [] = []"
| "join_space [s] = s"
| "join_space (s # t # ts) = s @ '' '' @ join_space (t # ts)"

definition get_text_sep :: "string list \<Rightarrow> string" where
  "get_text_sep strs = join_space (stripped_strings strs)"

text \<open>
  The slug patterns of the classifier are a literal followed by an explicit ASCII class
  and are modelled above. The regular expressions that search free text depend on the
  Unicode tables of the \<^verbatim>\<open>re\<close> module (word boundaries, white space, case folding)
  and are left to the environment: the four location patterns, named here after the
  place that uses them (the two loops of \<open>scrape_ashby_embedded\<close>, the page
  fallback of \<open>scrape_yc\<close>, the class heuristic of \<open>scrape_generic\<close>), the
  substitution that removes a trailing \<^verbatim>\<open>View\<close> from a link text, and the job-title
  keywords of the link scan.
\<close>

datatype text_pattern = LocEmbedded | LocHosted | LocYC | LocGeneric

text \<open>
  The environment: the network (whose answers may depend on the calls made so far), the
  headless browser, and the library functions the script calls. \<open>browse\<close> stands for
  the whole Playwright block of \<open>fetch_html\<close>; \<open>re_search_text\<close> returns group 1
  of a location pattern, \<open>re_sub_view\<close> is the substitution, \<open>re_search_title\<close>
  tells whether a title keyword occurs; \<open>py_str\<close> is the text an f-string inserts for
  a value that is not a string. \<open>BeautifulSoup\<close>, \<open>json_loads\<close> and \<open>urljoin\<close>
  may raise (\<open>urljoin\<close> does on a reference with an unmatched bracket in its
  authority).
\<close>

record env =
  HAS_PLAYWRIGHT :: bool
  browse :: "log \<Rightarrow> string \<Rightarrow> exn + string"
  requests_get :: "log \<Rightarrow> string \<Rightarrow> exn + response"
  requests_post :: "log \<Rightarrow> string \<Rightarrow> exn + response"
  BeautifulSoup :: "string \<Rightarrow> exn + soup"
  json_loads :: "string \<Rightarrow> exn + json"
  urljoin :: "string \<Rightarrow> string \<Rightarrow> exn + string"
  re_sub_view :: "string \<Rightarrow> string"
  re_search_text :: "text_pattern \<Rightarrow> string \<Rightarrow> string option"
  re_search_title :: "string \<Rightarrow> bool"
  py_str :: "json \<Rightarrow> string"

definition bindE :: "exn + 'a \<Rightarrow> ('a \<Rightarrow> exn + 'b) \<Rightarrow> exn + 'b" where
  "bindE m f = (case m of Inl e \<Rightarrow> Inl e | Inr x \<Rightarrow> f x)"

text \<open>A \<^verbatim>\<open>for\<close> loop whose body may raise: the first exception ends the loop.\<close>

fun foldE :: "('a \<Rightarrow> 's \<Rightarrow> exn + 's) \<Rightarrow> 'a list \<Rightarrow> 's \<Rightarrow> exn + 's" where
  "foldE f [] st = Inr st"
| "foldE f (x # xs) st = (case f x st of Inl e \<Rightarrow> Inl e | Inr st' \<Rightarrow> foldE f xs st')"

definition format_value :: "env \<Rightarrow> json \<Rightarrow> string" where
  "format_value env v = (case v of JStr s \<Rightarrow> s | _ \<Rightarrow> py_str env v)"

text \<open>
  Iterating over a value (a dict yields its keys in the order of their first
  occurrence), and the subscripts \<^verbatim>\<open>x[0]\<close> and \<^verbatim>\<open>x[key]\<close>.
\<close>

fun py_iter :: "json \<Rightarrow> exn + json list" where
  "py_iter (JArr xs) = Inr xs"
| "py_iter (JObj kvs) = Inr (map JStr (rev (remdups (rev (map fst kvs)))))"
| "py_iter (JStr s) = Inr (map (\<lambda>c. JStr [c]) s)"
| "py_iter _ = Inl TypeError"

fun py_first :: "json \<Rightarrow> exn + json" where
  "py_first (JArr []) = Inl IndexError"
| "py_first (JArr (x # xs)) = Inr x"
| "py_first (JStr []) = Inl IndexError"
| "py_first (JStr (c # cs)) = Inr (JStr [c])"
| "py_first (JObj kvs) = Inl KeyError"
| "py_first _ = Inl TypeError"

fun py_item :: "json \<Rightarrow> string \<Rightarrow> exn + json" where
  "py_item (JObj kvs) k = (case dict_lookup kvs k of Some v \<Rightarrow> Inr v | None \<Rightarrow> Inl KeyError)"
| "py_item _ k = Inl TypeError"

fun is_dict :: "json \<Rightarrow> bool" where
  "is_dict (JObj kvs) = True"
| "is_dict _ = False"

section \<open>Page fetcher\<close>

text \<open>
  \<^verbatim>\<open>fetch_html(url, use_playwright=False)\<close>: the browser first when asked for and
  installed, then a plain GET whose body counts only with status 200; every exception is
  caught, so the result is the page or \<open>None\<close>.
\<close>

definition fetch_html :: "env \<Rightarrow> string \<Rightarrow> bool \<Rightarrow> log \<Rightarrow> string option \<times> log" where
  "fetch_html env u use_playwright s =
     (let (rendered, s1) =
            (if use_playwright \<and> HAS_PLAYWRIGHT env
             then (case browse env s u of Inr html \<Rightarrow> Some html | Inl e \<Rightarrow> None, s @ [Browse u])
             else (None, s))
      in case rendered of
           Some html \<Rightarrow> (Some html, s1)
         | None \<Rightarrow>
             (case requests_get env s1 u of
                Inr r \<Rightarrow> (if status_code r = 200 then Some (r_text r) else None, s1 @ [Get u])
              | Inl e \<Rightarrow> (None, s1 @ [Get u])))"

section \<open>Embedded Ashby adapter\<close>

definition hexdash_char :: "char \<Rightarrow> bool" where
  "hexdash_char c = (let n = (of_char c :: nat) in
     (48 \<le> n \<and> n \<le> 57) \<or> (97 \<le> n \<and> n \<le> 102) \<or> c = CHR ''-'')"

text \<open>
  \<open>re_search_count lit cls n s\<close> is group 1 of \<^verbatim>\<open>re.search(LIT + '([CLS]{n})', s)\<close>:
  the leftmost place where the literal is followed by at least \<open>n\<close> characters of the
  class, and the first \<open>n\<close> of them.
\<close>

fun re_search_count :: "string \<Rightarrow> (char \<Rightarrow> bool) \<Rightarrow> nat \<Rightarrow> string \<Rightarrow> string option" where
  "re_search_count lit cls n [] = None"
| "re_search_count lit cls n (c # cs) =
     (if startswith lit (c # cs) \<and> n \<le> length (takeWhile cls (drop (length lit) (c # cs)))
      then Some (take n (drop (length lit) (c # cs)))
      else re_search_count lit cls n cs)"

definition parent_text :: "anchor \<Rightarrow> string" where
  "parent_text a = (case parent_strings a of Some ps \<Rightarrow> get_text_sep ps | None \<Rightarrow> [])"

definition group_or_empty :: "string option \<Rightarrow> string" where
  "group_or_empty m = (case m of Some g \<Rightarrow> g | None \<Rightarrow> [])"

text \<open>Body of the first loop of \<open>scrape_ashby_embedded\<close> (links carrying \<^verbatim>\<open>ashby_jid=\<close>).\<close>

definition embedded_jid_link ::
  "env \<Rightarrow> string \<Rightarrow> string \<Rightarrow> anchor \<Rightarrow> job list \<times> string set \<Rightarrow> exn + (job list \<times> string set)" where
  "embedded_jid_link env jobs_url cname a st =
     (case st of (jobs, seen) \<Rightarrow>
      if \<not> substr_in ''ashby_jid='' (href a) then Inr (jobs, seen)
      else
        let ttl = strip (re_sub_view env (get_text_strip (a_strings a))) in
        if ttl = [] \<or> ttl \<in> seen \<or> length ttl < 3 then Inr (jobs, seen)
        else
          bindE (case re_search_count ''ashby_jid='' hexdash_char 36 (href a) of
                   Some g \<Rightarrow> Inr (''https://app.ashbyhq.com/jobs/'' @ g)
                 | None \<Rightarrow> urljoin env jobs_url (href a))
            (\<lambda>job_url.
          bindE (make_job (JStr ttl) (JStr ''General'')
                   (JStr (group_or_empty (re_search_text env LocEmbedded (parent_text a))))
                   (JStr job_url) cname)
            (\<lambda>j. Inr (jobs @ [j], insert ttl seen))))"

text \<open>Body of the second loop (links into an Ashby-hosted board).\<close>

definition embedded_board_link ::
  "env \<Rightarrow> string \<Rightarrow> string \<Rightarrow> string option \<Rightarrow> anchor \<Rightarrow> job list \<times> string set
     \<Rightarrow> exn + (job list \<times> string set)" where
  "embedded_board_link env jobs_url cname slug a st =
     (case st of (jobs, seen) \<Rightarrow>
      bindE (urljoin env jobs_url (href a)) (\<lambda>full.
        if (case slug of
              Some sl \<Rightarrow> sl \<noteq> [] \<and> \<not> substr_in (''/'' @ sl @ ''/'') full
                          \<and> \<not> substr_in (''ashbyhq.com/'' @ sl @ ''/'') full
            | None \<Rightarrow> False)
        then Inr (jobs, seen)
        else if re_search_count ''/'' hexdash_char 36 full = None then Inr (jobs, seen)
        else
          let ttl = get_text_strip (a_strings a) in
          if ttl = [] \<or> ttl \<in> seen \<or> length ttl < 3 then Inr (jobs, seen)
          else
            bindE (make_job (JStr ttl) (JStr ''General'')
                     (JStr (group_or_empty (re_search_text env LocHosted (parent_text a))))
                     (JStr full) cname)
              (\<lambda>j. Inr (jobs @ [j], insert ttl seen))))"

definition embedded_parse :: "env \<Rightarrow> string \<Rightarrow> string \<Rightarrow> string \<Rightarrow> exn + job list" where
  "embedded_parse env jobs_url cname html =
     bindE (BeautifulSoup env html) (\<lambda>sp.
     bindE (foldE (embedded_jid_link env jobs_url cname) (anchors sp) ([], {})) (\<lambda>(jobs, seen).
       if jobs = [] then
         bindE (foldE (embedded_board_link env jobs_url cname
                        (re_search_run ''ashbyhq.com/'' (\<lambda>c. c \<noteq> CHR ''/'') jobs_url))
                  (anchors sp) (jobs, seen))
           (\<lambda>(jobs', seen'). Inr jobs')
       else Inr jobs))"

definition scrape_ashby_embedded :: "env \<Rightarrow> string \<Rightarrow> string \<Rightarrow> log \<Rightarrow> (exn + job list) \<times> log" where
  "scrape_ashby_embedded env jobs_url cname s =
     (case fetch_html env jobs_url True s of
        (None, s1) \<Rightarrow> (Inr [], s1)
      | (Some html, s1) \<Rightarrow>
          if html = [] then (Inr [], s1) else (embedded_parse env jobs_url cname html, s1))"

section \<open>Generic adapter\<close>

text \<open>
  The script defines \<open>scrape_generic\<close> twice with the same body; the second
  definition is the one in force and the one modelled here.

  One item of a schema.org script. The loop over the items runs inside a
  \<^verbatim>\<open>try\<close> whose handler is \<^verbatim>\<open>pass\<close>: an exception ends the script's items and
  keeps the records appended so far.
\<close>

definition schema_item :: "string \<Rightarrow> string \<Rightarrow> json \<Rightarrow> job list \<Rightarrow> exn + job list" where
  "schema_item jobs_url cname item jobs =
     bindE (py_get item ''@type'' JNull) (\<lambda>ty.
       if ty \<noteq> JStr ''JobPosting'' then Inr jobs
       else
         bindE (py_get item ''jobLocation'' JNull) (\<lambda>jl.
         bindE (py_get (py_or jl (JObj [])) ''address'' JNull) (\<lambda>ad.
         bindE (if is_dict (py_or ad (JObj []))
                then py_get (py_or ad (JObj [])) ''addressLocality'' (JStr [])
                else Inr (JStr [])) (\<lambda>loc.
         bindE (py_get item ''title'' (JStr [])) (\<lambda>t.
         bindE (py_get item ''occupationalCategory'' (JStr ''General'')) (\<lambda>d.
         bindE (py_get item ''url'' (JStr jobs_url)) (\<lambda>u.
         bindE (make_job t d loc u cname) (\<lambda>j. Inr (jobs @ [j])))))))))"

fun schema_items :: "string \<Rightarrow> string \<Rightarrow> json list \<Rightarrow> job list \<Rightarrow> job list" where
  "schema_items jobs_url cname [] jobs = jobs"
| "schema_items jobs_url cname (item # rest) jobs =
     (case schema_item jobs_url cname item jobs of
        Inl e \<Rightarrow> jobs
      | Inr jobs' \<Rightarrow> schema_items jobs_url cname rest jobs')"

definition schema_script :: "env \<Rightarrow> string \<Rightarrow> string \<Rightarrow> job list \<Rightarrow> string option \<Rightarrow> job list" where
  "schema_script env jobs_url cname jobs script =
     (case json_loads env (case script of Some src \<Rightarrow> src | None \<Rightarrow> []) of
        Inl e \<Rightarrow> jobs
      | Inr d \<Rightarrow> schema_items jobs_url cname (case d of JArr xs \<Rightarrow> xs | _ \<Rightarrow> [d]) jobs)"

definition schema_jobs :: "env \<Rightarrow> string \<Rightarrow> string \<Rightarrow> soup \<Rightarrow> job list" where
  "schema_jobs env jobs_url cname sp = foldl (schema_script env jobs_url cname) [] (ld_scripts sp)"

text \<open>Body of the loop over the class-keyword containers.\<close>

definition class_container ::
  "env \<Rightarrow> string \<Rightarrow> string \<Rightarrow> container \<Rightarrow> job list \<times> string set \<Rightarrow> exn + (job list \<times> string set)" where
  "class_container env jobs_url cname c st =
     (case st of (jobs, seen) \<Rightarrow>
      case c_anchor c of
        None \<Rightarrow> Inr (jobs, seen)
      | Some a \<Rightarrow>
          let ttl = get_text_strip (a_strings a) in
          if ttl = [] \<or> length ttl < 3 \<or> ttl \<in> seen then Inr (jobs, seen)
          else
            bindE (urljoin env jobs_url (href a)) (\<lambda>u.
            bindE (make_job (JStr ttl) (JStr ''General'')
                     (JStr (group_or_empty (re_search_text env LocGeneric (get_text_sep (c_strings c)))))
                     (JStr u) cname)
              (\<lambda>j. Inr (jobs @ [j], insert ttl seen))))"

text \<open>Body of the last-resort scan over all links.\<close>

definition scan_link ::
  "env \<Rightarrow> string \<Rightarrow> string \<Rightarrow> anchor \<Rightarrow> job list \<times> string set \<Rightarrow> exn + (job list \<times> string set)" where
  "scan_link env jobs_url cname a st =
     (case st of (jobs, seen) \<Rightarrow>
      let ttl = get_text_strip (a_strings a) in
      if 5 < length ttl \<and> length ttl < 100 \<and> re_search_title env ttl then
        bindE (urljoin env jobs_url (href a)) (\<lambda>full.
          if full \<notin> seen then
            bindE (make_job (JStr ttl) (JStr ''General'') (JStr []) (JStr full) cname)
              (\<lambda>j. Inr (jobs @ [j], insert full seen))
          else Inr (jobs, seen))
      else Inr (jobs, seen))"

definition class_jobs :: "env \<Rightarrow> string \<Rightarrow> string \<Rightarrow> soup \<Rightarrow> exn + (job list \<times> string set)" where
  "class_jobs env jobs_url cname sp =
     foldE (class_container env jobs_url cname) (take 150 (containers sp)) ([], {})"

definition generic_parse :: "env \<Rightarrow> string \<Rightarrow> string \<Rightarrow> string \<Rightarrow> exn + job list" where
  "generic_parse env jobs_url cname html =
     bindE (BeautifulSoup env html) (\<lambda>sp.
       if schema_jobs env jobs_url cname sp \<noteq> [] then Inr (schema_jobs env jobs_url cname sp)
       else
         bindE (class_jobs env jobs_url cname sp) (\<lambda>(jobs2, seen2).
           if jobs2 \<noteq> [] then Inr jobs2
           else
             bindE (foldE (scan_link env jobs_url cname) (anchors sp) (jobs2, seen2))
               (\<lambda>(jobs3, seen3). Inr (take 200 jobs3))))"

definition scrape_generic :: "env \<Rightarrow> string \<Rightarrow> string \<Rightarrow> log \<Rightarrow> (exn + job list) \<times> log" where
  "scrape_generic env jobs_url cname s =
     (if jobs_url = [] then (Inr [], s)
      else
        case fetch_html env jobs_url True s of
          (None, s1) \<Rightarrow> (Inr [], s1)
        | (Some html, s1) \<Rightarrow>
            if html = [] then (Inr [], s1)
            else if substr_in ''ashby_jid='' html then scrape_ashby_embedded env jobs_url cname s1
            else (generic_parse env jobs_url cname html, s1))"

section \<open>Adapters that call a vendor endpoint\<close>

text \<open>
  Each adapter has the same shape: one request, a loop that turns every item of the
  answer into a record, all inside a \<^verbatim>\<open>try\<close>. The function for one item follows the
  order in which the script evaluates its \<^verbatim>\<open>.get\<close> calls; where the script chains them
  with \<^verbatim>\<open>or\<close> they are all calls on the same object, so they raise together or not
  at all and the model may evaluate them up front.

  A loop that appends one record per item and is abandoned at the first exception:
\<close>

definition mapE :: "('a \<Rightarrow> exn + 'b) \<Rightarrow> 'a list \<Rightarrow> exn + 'b list" where
  "mapE f xs = foldE (\<lambda>x acc. bindE (f x) (\<lambda>y. Inr (acc @ [y]))) xs []"

definition greenhouse_job :: "json \<Rightarrow> string \<Rightarrow> json \<Rightarrow> exn + job" where
  "greenhouse_job fallback_url cname j =
     bindE (py_get j ''departments'' (JArr [JObj []])) (\<lambda>depts.
     bindE (if truthy depts then bindE (py_first depts) (\<lambda>d0. py_item d0 ''name'')
            else Inr (JStr ''General'')) (\<lambda>dept.
     bindE (py_get j ''location'' (JObj [])) (\<lambda>lo.
     bindE (py_get lo ''name'' (JStr [])) (\<lambda>loc.
     bindE (py_get j ''title'' (JStr [])) (\<lambda>t.
     bindE (py_get j ''absolute_url'' fallback_url) (\<lambda>u.
     make_job t dept loc u cname))))))"

definition greenhouse_parse :: "response \<Rightarrow> string \<Rightarrow> string \<Rightarrow> exn + job list" where
  "greenhouse_parse r fallback_url cname =
     bindE (r_json r) (\<lambda>d.
     bindE (py_get d ''jobs'' (JArr [])) (\<lambda>js.
     bindE (py_iter js) (mapE (greenhouse_job (JStr fallback_url) cname))))"

definition greenhouse_api :: "string \<Rightarrow> string" where
  "greenhouse_api slug =
     ''https://boards-api.greenhouse.io/v1/boards/'' @ slug @ ''/jobs?content=true''"

definition scrape_greenhouse ::
  "env \<Rightarrow> string \<Rightarrow> string \<Rightarrow> string \<Rightarrow> log \<Rightarrow> (exn + job list) \<times> log" where
  "scrape_greenhouse env slug cname fallback_url s =
     (let api = greenhouse_api slug in
      case bindE (requests_get env s api) (\<lambda>r. greenhouse_parse r fallback_url cname) of
        Inr jobs \<Rightarrow> (Inr jobs, s @ [Get api])
      | Inl e \<Rightarrow> scrape_generic env fallback_url cname (s @ [Get api]))"

definition lever_job :: "json \<Rightarrow> string \<Rightarrow> json \<Rightarrow> exn + job" where
  "lever_job fallback_url cname j =
     bindE (py_get j ''categories'' (JObj [])) (\<lambda>cats.
     bindE (py_get cats ''department'' (JStr ''General'')) (\<lambda>d0.
     bindE (py_get cats ''team'' d0) (\<lambda>dept.
     bindE (py_get cats ''location'' (JStr [])) (\<lambda>l0.
     bindE (py_get cats ''allLocations'' (JArr [l0])) (\<lambda>locs.
     bindE (if truthy locs then py_first locs else Inr (JStr [])) (\<lambda>loc.
     bindE (py_get j ''text'' (JStr [])) (\<lambda>t.
     bindE (py_get j ''hostedUrl'' fallback_url) (\<lambda>u.
     make_job t dept loc u cname))))))))"

definition lever_parse :: "response \<Rightarrow> string \<Rightarrow> string \<Rightarrow> exn + job list" where
  "lever_parse r fallback_url cname =
     bindE (r_json r) (\<lambda>data.
       case data of
         JArr items \<Rightarrow> mapE (lever_job (JStr fallback_url) cname) items
       | _ \<Rightarrow> Inl ValueError)"

definition lever_api :: "string \<Rightarrow> string" where
  "lever_api slug = ''https://api.lever.co/v0/postings/'' @ slug @ ''?mode=json''"

definition scrape_lever ::
  "env \<Rightarrow> string \<Rightarrow> string \<Rightarrow> string \<Rightarrow> log \<Rightarrow> (exn + job list) \<times> log" where
  "scrape_lever env slug cname fallback_url s =
     (let api = lever_api slug in
      case bindE (requests_get env s api) (\<lambda>r. lever_parse r fallback_url cname) of
        Inr jobs \<Rightarrow> (Inr jobs, s @ [Get api])
      | Inl e \<Rightarrow> scrape_generic env fallback_url cname (s @ [Get api]))"

definition ashby_job :: "json \<Rightarrow> string \<Rightarrow> json \<Rightarrow> exn + job" where
  "ashby_job fallback_url cname j =
     bindE (py_get j ''locationName'' JNull) (\<lambda>l1.
     bindE (py_get j ''location'' JNull) (\<lambda>l2.
     bindE (py_get j ''isRemote'' JNull) (\<lambda>rm.
     bindE (py_get j ''departmentName'' JNull) (\<lambda>d1.
     bindE (py_get j ''department'' JNull) (\<lambda>d2.
     bindE (py_get j ''team'' JNull) (\<lambda>d3.
     bindE (py_get j ''jobPostingUrl'' JNull) (\<lambda>u1.
     bindE (py_get j ''jobUrl'' JNull) (\<lambda>u2.
     bindE (py_get j ''title'' (JStr [])) (\<lambda>t.
     make_job t
       (py_or d1 (py_or d2 (py_or d3 (JStr ''General''))))
       (py_or l1 (py_or l2 (JStr (if truthy rm then ''Remote'' else []))))
       (py_or u1 (py_or u2 fallback_url))
       cname)))))))))"

definition ashby_parse :: "response \<Rightarrow> string \<Rightarrow> string \<Rightarrow> exn + job list" where
  "ashby_parse r fallback_url cname =
     bindE (r_json r) (\<lambda>data.
     bindE (py_get data ''jobPostings'' JNull) (\<lambda>a.
     bindE (py_get data ''jobs'' JNull) (\<lambda>b.
     bindE (py_iter (py_or a (py_or b (JArr [])))) (mapE (ashby_job (JStr fallback_url) cname)))))"

definition ashby_api :: "string \<Rightarrow> string" where
  "ashby_api try_slug = ''https://api.ashbyhq.com/posting-api/job-board/'' @ try_slug"

text \<open>The body of the \<^verbatim>\<open>try\<close> for one slug variant, and the loop over the variants.\<close>

definition ashby_try :: "env \<Rightarrow> string \<Rightarrow> string \<Rightarrow> string \<Rightarrow> log \<Rightarrow> (exn + job list) \<times> log" where
  "ashby_try env try_slug cname fallback_url s =
     (bindE (requests_get env s (ashby_api try_slug)) (\<lambda>r. ashby_parse r fallback_url cname),
      s @ [Get (ashby_api try_slug)])"

fun ashby_variants ::
  "env \<Rightarrow> string \<Rightarrow> string \<Rightarrow> string list \<Rightarrow> log \<Rightarrow> (exn + job list) \<times> log" where
  "ashby_variants env cname fallback_url [] s = scrape_ashby_embedded env fallback_url cname s"
| "ashby_variants env cname fallback_url (v # vs) s =
     (case ashby_try env v cname fallback_url s of
        (Inr jobs, s1) \<Rightarrow>
          if jobs \<noteq> [] then (Inr jobs, s1) else ashby_variants env cname fallback_url vs s1
      | (Inl e, s1) \<Rightarrow> ashby_variants env cname fallback_url vs s1)"

definition scrape_ashby ::
  "env \<Rightarrow> string \<Rightarrow> string \<Rightarrow> string \<Rightarrow> log \<Rightarrow> (exn + job list) \<times> log" where
  "scrape_ashby env slug cname fallback_url s =
     ashby_variants env cname fallback_url [slug, lower slug, capitalize slug] s"

definition workable_job :: "env \<Rightarrow> string \<Rightarrow> string \<Rightarrow> json \<Rightarrow> exn + job" where
  "workable_job env slug cname j =
     bindE (py_get j ''location'' JNull) (\<lambda>lo.
     bindE (if truthy lo then py_get lo ''city'' (JStr []) else Inr (JStr [])) (\<lambda>loc0.
     bindE (py_get j ''remote'' JNull) (\<lambda>rm.
     bindE (py_get j ''title'' (JStr [])) (\<lambda>t.
     bindE (py_get j ''department'' (JStr ''General'')) (\<lambda>d.
     bindE (py_get j ''shortcode'' (JStr [])) (\<lambda>sc.
     make_job t d (if truthy rm then JStr ''Remote'' else loc0)
       (JStr (''https://apply.workable.com/'' @ slug @ ''/j/'' @ format_value env sc @ ''/''))
       cname))))))"

definition workable_parse :: "env \<Rightarrow> response \<Rightarrow> string \<Rightarrow> string \<Rightarrow> exn + job list" where
  "workable_parse env r slug cname =
     bindE (r_json r) (\<lambda>d.
     bindE (py_get d ''results'' (JArr [])) (\<lambda>js.
     bindE (py_iter js) (mapE (workable_job env slug cname))))"

definition scrape_workable ::
  "env \<Rightarrow> string \<Rightarrow> string \<Rightarrow> string \<Rightarrow> log \<Rightarrow> (exn + job list) \<times> log" where
  "scrape_workable env slug cname fallback_url s =
     (let api = ''https://apply.workable.com/api/v3/accounts/'' @ slug @ ''/jobs'' in
      case bindE (requests_post env s api) (\<lambda>r. workable_parse env r slug cname) of
        Inr jobs \<Rightarrow> (Inr jobs, s @ [Post api])
      | Inl e \<Rightarrow> scrape_generic env fallback_url cname (s @ [Post api]))"

definition rippling_job :: "env \<Rightarrow> string \<Rightarrow> json \<Rightarrow> string \<Rightarrow> json \<Rightarrow> exn + job" where
  "rippling_job env slug fallback_url cname j =
     bindE (py_get j ''name'' (JStr [])) (\<lambda>n0.
     bindE (py_get j ''title'' n0) (\<lambda>t.
     bindE (py_get j ''team'' (JStr ''General'')) (\<lambda>t0.
     bindE (py_get j ''department'' t0) (\<lambda>d0.
     bindE (if is_dict (py_or d0 (JStr ''General''))
            then py_get (py_or d0 (JStr ''General'')) ''name'' (JStr ''General'')
            else Inr (py_or d0 (JStr ''General''))) (\<lambda>dept.
     bindE (py_get j ''locationName'' (JStr [])) (\<lambda>l0.
     bindE (py_get j ''location'' l0) (\<lambda>l1.
     bindE (if is_dict l1 then bindE (py_get l1 ''name'' (JStr [])) (\<lambda>n1. py_get l1 ''city'' n1)
            else Inr l1) (\<lambda>l2.
     bindE (py_get j ''remote'' JNull) (\<lambda>rm.
     bindE (py_get j ''slug'' (JStr [])) (\<lambda>s0.
     bindE (py_get j ''id'' s0) (\<lambda>job_id.
     make_job t dept (if truthy rm then JStr ''Remote'' else l2)
       (if truthy job_id
        then JStr (''https://ats.rippling.com/'' @ slug @ ''/jobs/'' @ format_value env job_id)
        else fallback_url)
       cname)))))))))))"

definition rippling_parse :: "env \<Rightarrow> response \<Rightarrow> string \<Rightarrow> string \<Rightarrow> string \<Rightarrow> exn + job list" where
  "rippling_parse env r slug fallback_url cname =
     bindE (r_json r) (\<lambda>data.
     bindE (case data of
              JArr xs \<Rightarrow> Inr data
            | _ \<Rightarrow> bindE (py_get data ''results'' (JArr [])) (\<lambda>r0. py_get data ''jobs'' r0)) (\<lambda>items.
     bindE (py_iter items) (mapE (rippling_job env slug (JStr fallback_url) cname))))"

definition scrape_rippling ::
  "env \<Rightarrow> string \<Rightarrow> string \<Rightarrow> string \<Rightarrow> log \<Rightarrow> (exn + job list) \<times> log" where
  "scrape_rippling env slug cname fallback_url s =
     (let api = ''https://ats.rippling.com/api/v1/'' @ slug @ ''/jobs?limit=200'';
          page = (if fallback_url \<noteq> [] then fallback_url
                  else ''https://ats.rippling.com/'' @ slug @ ''/jobs'')
      in case bindE (requests_get env s api) (\<lambda>r. rippling_parse env r slug fallback_url cname) of
           Inr jobs \<Rightarrow>
             if jobs \<noteq> [] then (Inr jobs, s @ [Get api])
             else scrape_generic env page cname (s @ [Get api])
         | Inl e \<Rightarrow> scrape_generic env page cname (s @ [Get api]))"

definition yc_job :: "env \<Rightarrow> string \<Rightarrow> string \<Rightarrow> json \<Rightarrow> exn + job" where
  "yc_job env slug cname j =
     bindE (py_get j ''location'' (JStr ''San Francisco, CA'')) (\<lambda>loc.
     bindE (py_get j ''type'' (JStr ''General'')) (\<lambda>t0.
     bindE (py_get j ''subtype'' t0) (\<lambda>dept.
     bindE (py_get j ''slug'' (JStr [])) (\<lambda>sl.
     bindE (py_get j ''title'' (JStr [])) (\<lambda>t.
     make_job t dept loc
       (JStr (''https://www.ycombinator.com/companies/'' @ slug @ ''/jobs/'' @ format_value env sl))
       cname)))))"

definition yc_parse :: "env \<Rightarrow> response \<Rightarrow> string \<Rightarrow> string \<Rightarrow> exn + job list" where
  "yc_parse env r slug cname =
     bindE (r_json r) (\<lambda>data. bindE (py_iter data) (mapE (yc_job env slug cname)))"

definition yc_link ::
  "env \<Rightarrow> string \<Rightarrow> string \<Rightarrow> anchor \<Rightarrow> job list \<times> string set \<Rightarrow> exn + (job list \<times> string set)" where
  "yc_link env slug cname a st =
     (case st of (jobs, seen) \<Rightarrow>
      if \<not> substr_in (''/companies/'' @ slug @ ''/jobs/'') (href a) then Inr (jobs, seen)
      else
        let ttl = get_text_strip (a_strings a) in
        if ttl = [] \<or> ttl \<in> seen then Inr (jobs, seen)
        else
          bindE (make_job (JStr ttl) (JStr ''General'')
                   (JStr (case re_search_text env LocYC (parent_text a) of
                            Some g \<Rightarrow> g | None \<Rightarrow> ''San Francisco, CA''))
                   (JStr (''https://www.ycombinator.com'' @ href a)) cname)
            (\<lambda>j. Inr (jobs @ [j], insert ttl seen)))"

definition yc_html_parse :: "env \<Rightarrow> string \<Rightarrow> string \<Rightarrow> string \<Rightarrow> exn + job list" where
  "yc_html_parse env slug cname html =
     bindE (BeautifulSoup env html) (\<lambda>sp.
     bindE (foldE (yc_link env slug cname) (anchors sp) ([], {})) (\<lambda>(jobs, seen). Inr jobs))"

definition scrape_yc ::
  "env \<Rightarrow> string \<Rightarrow> string \<Rightarrow> string \<Rightarrow> log \<Rightarrow> (exn + job list) \<times> log" where
  "scrape_yc env slug cname fallback_url s =
     (let api = ''https://www.ycombinator.com/companies/'' @ slug @ ''/jobs.json'';
          from_api = (case bindE (requests_get env s api) (\<lambda>r. yc_parse env r slug cname) of
                        Inr jobs \<Rightarrow> jobs | Inl e \<Rightarrow> [])
      in if from_api \<noteq> [] then (Inr from_api, s @ [Get api])
         else
           case fetch_html env fallback_url False (s @ [Get api]) of
             (None, s2) \<Rightarrow> (Inr [], s2)
           | (Some html, s2) \<Rightarrow>
               if html = [] then (Inr [], s2)
               else (case yc_html_parse env slug cname html of
                       Inr jobs \<Rightarrow> (Inr jobs, s2)
                     | Inl e \<Rightarrow> (Inr [], s2)))"

definition route_to_scraper ::
  "env \<Rightarrow> ats \<Rightarrow> string option \<Rightarrow> string \<Rightarrow> string \<Rightarrow> log \<Rightarrow> (exn + job list) \<times> log" where
  "route_to_scraper env a slug nm jobs_url s =
     (let sl = (case slug of Some x \<Rightarrow> x | None \<Rightarrow> []) in
      if a = Greenhouse \<and> sl \<noteq> [] then scrape_greenhouse env sl nm jobs_url s
      else if a = Lever \<and> sl \<noteq> [] then scrape_lever env sl nm jobs_url s
      else if a = Ashby \<and> sl \<noteq> [] then scrape_ashby env sl nm jobs_url s
      else if (a = AshbyEmbedded \<or> a = Ashby) \<and> sl = [] then scrape_ashby_embedded env jobs_url nm s
      else if a = Workable \<and> sl \<noteq> [] then scrape_workable env sl nm jobs_url s
      else if a = YC \<and> sl \<noteq> [] then scrape_yc env sl nm jobs_url s
      else if a = Rippling \<and> sl \<noteq> [] then scrape_rippling env sl nm jobs_url s
      else scrape_generic env jobs_url nm s)"

section \<open>Jobs-page locator\<close>

definition JOBS_PATHS :: "string list" where
  "JOBS_PATHS =
     [''/careers'', ''/jobs'', ''/careers/jobs'', ''/careers/openings'',
      ''/careers/open-roles'', ''/careers/positions'', ''/careers/listings'',
      ''/about/careers'', ''/company/careers'', ''/join'', ''/join-us'',
      ''/open-roles'', ''/work-with-us'', ''/hiring'', ''/openings'', ''/career'']"

definition CAREERS_KEYWORDS :: "string list" where
  "CAREERS_KEYWORDS =
     [''career'', ''job'', ''hiring'', ''join us'', ''open role'',
      ''we're hiring'', ''opening'', ''position'', ''work with us'']"

text \<open>The four values \<^verbatim>\<open>(url, ats, slug, html)\<close> that the locator returns.\<close>

type_synonym page = "string option \<times> ats option \<times> string option \<times> string option"

definition no_page :: page where
  "no_page = (None, None, None, None)"

text \<open>
  The loop of \<open>check_page\<close> over the links of a page. A link whose text or target
  carries a careers keyword is resolved, classified by its URL, and otherwise fetched
  and classified by its content.
\<close>

fun check_links :: "env \<Rightarrow> string \<Rightarrow> anchor list \<Rightarrow> log \<Rightarrow> (exn + page) \<times> log" where
  "check_links env u [] s = (Inr no_page, s)"
| "check_links env u (a # rest) s =
     (if list_ex (\<lambda>kw. substr_in kw (lower (href a))
                      \<or> substr_in kw (lower (get_text_strip (a_strings a)))) CAREERS_KEYWORDS
      then
        (case urljoin env u (href a) of
           Inl e \<Rightarrow> (Inl e, s)
         | Inr full_url \<Rightarrow>
             if rstrip_slash full_url = rstrip_slash u \<or> startswith ''#'' (href a)
             then check_links env u rest s
             else
               (case detect_ats_from_url full_url of
                  (Some t, slug) \<Rightarrow> (Inr (Some full_url, Some t, slug, None), s)
                | (None, slug) \<Rightarrow>
                    (case fetch_html env full_url False s of
                       (None, s1) \<Rightarrow> check_links env u rest s1
                     | (Some sub_html, s1) \<Rightarrow>
                         if sub_html = [] then check_links env u rest s1
                         else
                           (case detect_ats_from_html sub_html full_url of
                              (Some t, slug') \<Rightarrow>
                                (Inr (Some full_url, Some t, slug', Some sub_html), s1)
                            | (None, slug') \<Rightarrow> check_links env u rest s1))))
      else check_links env u rest s)"

definition check_page :: "env \<Rightarrow> string \<Rightarrow> string \<Rightarrow> log \<Rightarrow> (exn + page) \<times> log" where
  "check_page env u html s =
     (case detect_ats_from_html html u of
        (Some t, slug) \<Rightarrow> (Inr (Some u, Some t, slug, Some html), s)
      | (None, slug) \<Rightarrow>
          (case BeautifulSoup env html of
             Inl e \<Rightarrow> (Inl e, s)
           | Inr sp \<Rightarrow> check_links env u (anchors sp) s))"

text \<open>
  Step 2 of \<open>find_jobs_page\<close>: the conventional paths. The body of the loop is a
  \<^verbatim>\<open>try\<close> whose handler is \<^verbatim>\<open>pass\<close>, so an exception moves on to the next path.
\<close>

fun try_paths :: "env \<Rightarrow> string \<Rightarrow> string list \<Rightarrow> log \<Rightarrow> page \<times> log" where
  "try_paths env base [] s = (no_page, s)"
| "try_paths env base (p # ps) s =
     (case requests_get env s (base @ p) of
        Inl e \<Rightarrow> try_paths env base ps (s @ [Get (base @ p)])
      | Inr r \<Rightarrow>
          if status_code r = 200 \<and> length (r_text r) > 500 then
            (case detect_ats_from_url (r_url r) of
               (Some t, slug) \<Rightarrow> ((Some (r_url r), Some t, slug, None), s @ [Get (base @ p)])
             | (None, slug) \<Rightarrow>
                 (case check_page env (r_url r) (r_text r) (s @ [Get (base @ p)]) of
                    (Inl e, s2) \<Rightarrow> try_paths env base ps s2
                  | (Inr (found_url, Some t, slug', h), s2) \<Rightarrow> ((found_url, Some t, slug', h), s2)
                  | (Inr (found_url, None, slug', h), s2) \<Rightarrow>
                      ((Some (r_url r), None, None, Some (r_text r)), s2)))
          else try_paths env base ps (s @ [Get (base @ p)]))"

text \<open>
  \<open>find_jobs_page\<close>: the homepage first (its \<open>check_page\<close> is outside any
  \<^verbatim>\<open>try\<close>), then the conventional paths.
\<close>

definition find_jobs_page :: "env \<Rightarrow> string \<Rightarrow> log \<Rightarrow> (exn + page) \<times> log" where
  "find_jobs_page env base0 s =
     (let base = rstrip_slash base0 in
      case fetch_html env base False s of
        (None, s1) \<Rightarrow> (case try_paths env base JOBS_PATHS s1 of (pg, s2) \<Rightarrow> (Inr pg, s2))
      | (Some html, s1) \<Rightarrow>
          if html = [] then (case try_paths env base JOBS_PATHS s1 of (pg, s2) \<Rightarrow> (Inr pg, s2))
          else
            (case check_page env base html s1 of
               (Inl e, s2) \<Rightarrow> (Inl e, s2)
             | (Inr (found_url, Some t, slug, h), s2) \<Rightarrow> (Inr (found_url, Some t, slug, h), s2)
             | (Inr (found_url, None, slug, h), s2) \<Rightarrow>
                 (case try_paths env base JOBS_PATHS s2 of (pg, s3) \<Rightarrow> (Inr pg, s3))))"

section \<open>Override table and orchestrator\<close>

text \<open>
  The dictionary literal \<open>KNOWN_ATS\<close>, in source order. The key \<open>medely\<close> occurs
  twice; a dictionary keeps the later value.
\<close>

definition KNOWN_ATS_items :: "(string \<times> ats \<times> string option \<times> string) list" where
  "KNOWN_ATS_items =
     [(''faire'', Greenhouse, Some ''Faire'', ''https://boards.greenhouse.io/faire''),
      (''grammarly'', Greenhouse, Some ''grammarly'', ''https://boards.greenhouse.io/grammarly''),
      (''instawork'', Greenhouse, Some ''instawork'', ''https://boards.greenhouse.io/instawork''),
      (''handshake'', AshbyEmbedded, None, ''https://joinhandshake.com/careers/''),
      (''lattice'', Greenhouse, Some ''lattice'', ''https://boards.greenhouse.io/lattice''),
      (''ada'', Greenhouse, Some ''ada18'', ''https://job-boards.greenhouse.io/ada18''),
      (''adquick'', Greenhouse, Some ''adquick'', ''https://boards.greenhouse.io/adquick''),
      (''cambly'', Greenhouse, Some ''cambly'', ''https://boards.greenhouse.io/cambly''),
      (''curri'', Greenhouse, Some ''curri'', ''https://boards.greenhouse.io/curri''),
      (''glossgenius'', Greenhouse, Some ''glossgenius'', ''https://boards.greenhouse.io/glossgenius''),
      (''hipcamp'', Greenhouse, Some ''hipcamp'', ''https://boards.greenhouse.io/hipcamp''),
      (''owner'', Lever, Some ''owner'', ''https://jobs.lever.co/owner''),
      (''bounce'', AshbyEmbedded, None, ''https://jobs.ashbyhq.com/Bounce''),
      (''lily'', Greenhouse, Some ''lilyai'', ''https://boards.greenhouse.io/lilyai''),
      (''medely'', Greenhouse, Some ''medely'', ''https://boards.greenhouse.io/medely''),
      (''padlet'', Greenhouse, Some ''padlet'', ''https://boards.greenhouse.io/padlet''),
      (''peek'', Greenhouse, Some ''peek'', ''https://boards.greenhouse.io/peek''),
      (''workstream'', Greenhouse, Some ''workstream'', ''https://boards.greenhouse.io/workstream''),
      (''wonderschool'', Ashby, Some ''wonderschool'', ''https://jobs.ashbyhq.com/wonderschool''),
      (''ava'', Ashby, Some ''ava'', ''https://jobs.ashbyhq.com/ava''),
      (''resortpass'', Lever, Some ''resortpass'', ''https://jobs.lever.co/resortpass''),
      (''overflow'', Lever, Some ''overflow'', ''https://jobs.lever.co/overflow''),
      (''huckleberry'', Lever, Some ''huckleberry'', ''https://jobs.lever.co/huckleberry''),
      (''goodtime'', Lever, Some ''goodtime'', ''https://jobs.lever.co/goodtime''),
      (''sourcegraph'', Lever, Some ''sourcegraph'', ''https://jobs.lever.co/sourcegraph''),
      (''liftoff'', Lever, Some ''liftoff'', ''https://jobs.lever.co/liftoff''),
      (''trendsi'', Lever, Some ''trendsi'', ''https://jobs.lever.co/trendsi''),
      (''lilo'', Lever, Some ''lilo'', ''https://jobs.lever.co/lilo''),
      (''willow'', YC, Some ''willow'', ''https://www.ycombinator.com/companies/willow/jobs''),
      (''woz'', YC, Some ''woz'', ''https://www.ycombinator.com/companies/woz/jobs''),
      (''namespace'', YC, Some ''namespace'', ''https://www.ycombinator.com/companies/namespace/jobs''),
      (''sibli'', YC, Some ''sibli'', ''https://www.ycombinator.com/companies/sibli/jobs''),
      (''allstripes (acquired by picnic health)'', Greenhouse, Some ''picnichealth'',
         ''https://boards.greenhouse.io/picnichealth''),
      (''northstar (acquired by nayya health)'', Greenhouse, Some ''nayya'',
         ''https://boards.greenhouse.io/nayya''),
      (''via (acquired by justworks)'', Greenhouse, Some ''justworks'',
         ''https://boards.greenhouse.io/justworks''),
      (''yik yak (acquired by sidechat)'', Greenhouse, Some ''sidechat'',
         ''https://boards.greenhouse.io/sidechat''),
      (''setter.com (acquired by thumbtack)'', Greenhouse, Some ''thumbtackjobs'',
         ''https://boards.greenhouse.io/thumbtackjobs''),
      (''assemble (acquired by deel)'', Ashby, Some ''deel'', ''https://jobs.ashbyhq.com/deel''),
      (''carebrain'', Greenhouse, Some ''carebrain'', ''https://boards.greenhouse.io/carebrain''),
      (''sprx technologies'', Greenhouse, Some ''sprx'', ''https://boards.greenhouse.io/sprx''),
      (''resq'', Ashby, Some ''ResQ'', ''https://jobs.ashbyhq.com/ResQ''),
      (''medely'', Ashby, Some ''medely'', ''https://jobs.ashbyhq.com/medely''),
      (''standard fleet'', Ashby, Some ''StandardFleet'', ''https://jobs.ashbyhq.com/StandardFleet'')]"

definition KNOWN_ATS :: "string \<Rightarrow> (ats \<times> string option \<times> string) option" where
  "KNOWN_ATS k = map_of (rev KNOWN_ATS_items) k"

record company_target =
  name :: string
  website :: "string option"

text \<open>The result of \<open>scrape_company\<close>: the jobs and the failure reason.\<close>

type_synonym outcome = "job list \<times> string option"

definition stamp :: "string \<Rightarrow> job list \<Rightarrow> job list" where
  "stamp site jobs = map (\<lambda>j. j\<lparr>company_website := site\<rparr>) jobs"

text \<open>Step 2 of \<open>scrape_company\<close> (from the test of the website to the end).\<close>

definition auto_detect :: "env \<Rightarrow> string \<Rightarrow> string \<Rightarrow> log \<Rightarrow> (exn + outcome) \<times> log" where
  "auto_detect env nm site s =
     (if site = [] then (Inr ([], Some ''no website''), s)
      else
        case find_jobs_page env site s of
          (Inl e, s1) \<Rightarrow> (Inl e, s1)
        | (Inr (jobs_url, a, slug, html), s1) \<Rightarrow>
            (case jobs_url of
               None \<Rightarrow> (Inr ([], Some ''no jobs page found''), s1)
             | Some ju \<Rightarrow>
                 if ju = [] then (Inr ([], Some ''no jobs page found''), s1)
                 else
                   (case a of
                      Some t \<Rightarrow>
                        (case route_to_scraper env t slug nm ju s1 of
                           (Inl e, s2) \<Rightarrow> (Inl e, s2)
                         | (Inr jobs, s2) \<Rightarrow> (Inr (stamp site jobs, None), s2))
                    | None \<Rightarrow>
                        (case scrape_generic env ju nm s1 of
                           (Inl e, s2) \<Rightarrow> (Inl e, s2)
                         | (Inr jobs, s2) \<Rightarrow> (Inr (stamp site jobs, None), s2)))))"

definition scrape_company :: "env \<Rightarrow> company_target \<Rightarrow> log \<Rightarrow> (exn + outcome) \<times> log" where
  "scrape_company env c s =
     (let site = rstrip_slash (case website c of Some w \<Rightarrow> w | None \<Rightarrow> []) in
      case KNOWN_ATS (lower (name c)) of
        Some (a, slug, jobs_url) \<Rightarrow>
          (case route_to_scraper env a slug (name c) jobs_url s of
             (Inl e, s1) \<Rightarrow> (Inl e, s1)
           | (Inr jobs, s1) \<Rightarrow>
               if jobs \<noteq> [] then (Inr (stamp site jobs, None), s1)
               else auto_detect env (name c) site s1)
      | None \<Rightarrow> auto_detect env (name c) site s)"

section \<open>Auxiliary notions for the proofs\<close>

text \<open>A string that \<^verbatim>\<open>strip()\<close> leaves alone: empty, or with no space at either end.\<close>

definition trimmed :: "string \<Rightarrow> bool" where
  "trimmed t = (t = [] \<or> (\<not> isspace (hd t) \<and> \<not> isspace (last t)))"

text \<open>
  The invariant of the loops that keep a \<open>seen\<close> set of titles: the titles collected
  so far are pairwise different and all of them are in the set.
\<close>

definition seen_inv :: "job list \<times> string set \<Rightarrow> bool" where
  "seen_inv st = (distinct (map title (fst st)) \<and> title ` set (fst st) \<subseteq> snd st)"

section \<open>Example worlds\<close>

text \<open>
  The world in which nothing answers: every request raises, no browser is installed,
  pages parse to nothing. The other worlds below change it where they need to.
\<close>

definition offline :: env where
  "offline =
     \<lparr>HAS_PLAYWRIGHT = False,
      browse = (\<lambda>lg u. Inl (External ''browser not installed'')),
      requests_get = (\<lambda>lg u. Inl (External ''connection refused'')),
      requests_post = (\<lambda>lg u. Inl (External ''connection refused'')),
      BeautifulSoup = (\<lambda>h. Inr \<lparr>anchors = [], ld_scripts = [], containers = []\<rparr>),
      json_loads = (\<lambda>src. Inl (External ''JSONDecodeError'')),
      urljoin = (\<lambda>b u. Inr u),
      re_sub_view = (\<lambda>t. t),
      re_search_text = (\<lambda>p t. None),
      re_search_title = (\<lambda>t. False),
      py_str = (\<lambda>v. [])\<rparr>"

definition ok_response :: "string \<Rightarrow> string \<Rightarrow> exn + json \<Rightarrow> response" where
  "ok_response u body js = \<lparr>status_code = 200, r_text = body, r_url = u, r_json = js\<rparr>"

text \<open>
  A careers page that embeds the Ashby widget: three links, two of them with the same
  title once trimmed.
\<close>

definition widget_html :: string where
  "widget_html =
     ''<a href=?ashby_jid=1>Engineer</a><a href=?ashby_jid=2> Engineer</a><a href=?ashby_jid=3>Designer</a>''"

definition widget_world :: env where
  "widget_world = offline
     \<lparr>requests_get :=
        (\<lambda>lg u. if u = ''https://acme.com/careers''
                 then Inr (ok_response u widget_html (Inl (External ''JSONDecodeError'')))
                 else Inl (External ''connection refused'')),
      BeautifulSoup :=
        (\<lambda>h. Inr \<lparr>anchors =
                     [\<lparr>href = ''?ashby_jid=1'', a_strings = [''Engineer''],
                       parent_strings = Some [''Engineer'', '' Engineer'', ''Designer'']\<rparr>,
                      \<lparr>href = ''?ashby_jid=2'', a_strings = ['' Engineer''],
                       parent_strings = Some [''Engineer'', '' Engineer'', ''Designer'']\<rparr>,
                      \<lparr>href = ''?ashby_jid=3'', a_strings = [''Designer''],
                       parent_strings = Some [''Engineer'', '' Engineer'', ''Designer'']\<rparr>],
                   ld_scripts = [], containers = []\<rparr>),
      urljoin := (\<lambda>b u. Inr (b @ u))\<rparr>"

text \<open>A network that serves the listed pages and refuses every other request.\<close>

definition web :: "(string \<times> response) list \<Rightarrow> log \<Rightarrow> string \<Rightarrow> exn + response" where
  "web pages lg u =
     (case map_of pages u of Some r \<Rightarrow> Inr r | None \<Rightarrow> Inl (External ''connection refused''))"

text \<open>
  A listings page with one schema.org \<open>JobPosting\<close> and one container of class
  \<open>job\<close> that holds a link to another posting.
\<close>

definition posting_src :: string where
  "posting_src =
     ''{\"@type\": \"JobPosting\", \"title\": \"Staff Engineer\", \"occupationalCategory\": \"Engineering\", \"url\": \"https://acme.com/jobs/1\"}''"

definition posting_json :: json where
  "posting_json =
     JObj [(''@type'', JStr ''JobPosting''), (''title'', JStr ''Staff Engineer''),
           (''occupationalCategory'', JStr ''Engineering''),
           (''url'', JStr ''https://acme.com/jobs/1'')]"

definition listing_html :: string where
  "listing_html =
     ''<script type=application/ld+json>'' @ posting_src
       @ ''</script><div class=job><a href=/jobs/2>Designer</a></div>''"

definition listing_soup :: soup where
  "listing_soup =
     \<lparr>anchors = [\<lparr>href = ''/jobs/2'', a_strings = [''Designer''],
                  parent_strings = Some [''Designer'']\<rparr>],
      ld_scripts = [Some posting_src],
      containers = [\<lparr>c_anchor = Some \<lparr>href = ''/jobs/2'', a_strings = [''Designer''],
                                       parent_strings = Some [''Designer'']\<rparr>,
                     c_strings = [''Designer'']\<rparr>]\<rparr>"

text \<open>The world that serves \<open>page\<close>, parsed as the listings page, at the given addresses.\<close>

definition listing_world :: "(string \<times> response) list \<Rightarrow> env" where
  "listing_world pages = offline
     \<lparr>requests_get := web pages,
      BeautifulSoup := (\<lambda>h. Inr listing_soup),
      json_loads := (\<lambda>src. if src = posting_src then Inr posting_json
                            else Inl (External ''JSONDecodeError'')),
      urljoin := (\<lambda>b u. Inr (''https://acme.com'' @ u))\<rparr>"

definition no_json :: "exn + json" where
  "no_json = Inl (External ''JSONDecodeError'')"


text \<open>
  Lever answering with an error object, and a fallback page whose only container
  links to a reference that \<open>urljoin\<close> rejects (an unmatched bracket in the
  authority raises \<open>ValueError\<close>).
\<close>

definition lever_error :: json where
  "lever_error = JObj [(''ok'', JBool False), (''error'', JStr ''Document not found'')]"

definition bracket_html :: string where
  "bracket_html = ''<div class=posting><a href=//[careers>Careers and open roles</a></div>''"

definition bracket_soup :: soup where
  "bracket_soup =
     \<lparr>anchors = [\<lparr>href = ''//[careers'', a_strings = [''Careers and open roles''],
                  parent_strings = Some [''Careers and open roles'']\<rparr>],
      ld_scripts = [],
      containers = [\<lparr>c_anchor = Some \<lparr>href = ''//[careers'',
                                       a_strings = [''Careers and open roles''],
                                       parent_strings = Some [''Careers and open roles'']\<rparr>,
                     c_strings = [''Careers and open roles'']\<rparr>]\<rparr>"

definition bracket_world :: "(string \<times> response) list \<Rightarrow> env" where
  "bracket_world pages = offline
     \<lparr>requests_get := web pages,
      BeautifulSoup := (\<lambda>h. Inr bracket_soup),
      urljoin := (\<lambda>b u. if u = ''//[careers'' then Inl ValueError else Inr (b @ u))\<rparr>"




text \<open>A Greenhouse board with one posting, reachable under the slug of the override.\<close>

definition faire_board :: json where
  "faire_board =
     JObj [(''jobs'', JArr [JObj [(''title'', JStr ''Buyer''),
                                  (''departments'', JArr [JObj [(''name'', JStr ''Retail'')]]),
                                  (''location'', JObj [(''name'', JStr ''Remote'')]),
                                  (''absolute_url'',
                                   JStr ''https://boards.greenhouse.io/faire/jobs/1'')]])]"

definition faire_world :: env where
  "faire_world = offline
     \<lparr>requests_get := web [(greenhouse_api ''Faire'',
                             ok_response (greenhouse_api ''Faire'') [] (Inr faire_board))]\<rparr>"

text \<open>The website as \<open>scrape_company\<close> uses it: the field, or the empty string, trimmed of slashes.\<close>

definition site_of :: "company_target \<Rightarrow> string" where
  "site_of c = rstrip_slash (case website c of Some w \<Rightarrow> w | None \<Rightarrow> [])"


definition returns :: "(exn + 'a) \<times> log \<Rightarrow> bool" where
  "returns r = (\<exists>x. fst r = Inr x)"

definition unreachable :: "env \<Rightarrow> string \<Rightarrow> bool" where
  "unreachable env site = (\<forall>lg p. \<exists>e. requests_get env lg (site @ p) = Inl e)"



section \<open>Evaluation rules\<close>

lemmas string_defs =
  strip_def lstrip_def rstrip_def isspace_def rstrip_slash_def lower_def lower_char_def
  upper_char_def capitalize_def get_text_strip_def get_text_sep_def stripped_strings_def

lemmas eval_defs =
  fetch_html_def offline_def ok_response_def web_def no_json_def bindE_def make_job_def
  py_or_def group_or_empty_def parent_text_def hexdash_char_def Let_def scrape_generic_def
  generic_parse_def schema_jobs_def schema_script_def schema_item_def class_jobs_def
  class_container_def scan_link_def scrape_ashby_embedded_def embedded_parse_def
  embedded_jid_link_def embedded_board_link_def dict_lookup_def mapE_def

section \<open>Properties of the classifier and of record construction\<close>

text \<open>
  C2 (as amended). A signature substring without a slug does not yield a kind with an
  absent slug. The embedded-widget marker \<^verbatim>\<open>ashby_jid=\<close> without an
  \<^verbatim>\<open>ashbyhq.com/<slug>\<close> match yields \<open>ashby_embedded\<close> paired with the page URL;
  every hosted-domain signature (taken in the priority order of the code, the earlier
  ones being absent) whose slug patterns all fail yields the unknown result
  \<open>(None, None)\<close>, and later signatures are not consulted.
\<close>

theorem detect_ats_from_html_no_slug:
  assumes "html \<noteq> []"
  shows "(substr_in ''ashby_jid='' html \<and> re_search_slug ''ashbyhq.com/'' html = None
            \<longrightarrow> detect_ats_from_html html page_url = (Some AshbyEmbedded, Some page_url))
       \<and> (\<not> substr_in ''ashby_jid='' html \<and> substr_in ''jobs.ashbyhq.com'' html
            \<and> re_search_slug ''jobs.ashbyhq.com/'' html = None
            \<longrightarrow> detect_ats_from_html html page_url = (None, None))
       \<and> (\<not> substr_in ''ashby_jid='' html \<and> \<not> substr_in ''jobs.ashbyhq.com'' html
            \<and> (substr_in ''greenhouse.io'' html \<or> substr_in ''grnh.se'' html)
            \<and> first_slug [''boards.greenhouse.io/'', ''job-boards.greenhouse.io/'',
                            ''greenhouse.io/embed/job_board?for=''] html = None
            \<longrightarrow> detect_ats_from_html html page_url = (None, None))
       \<and> (\<not> substr_in ''ashby_jid='' html \<and> \<not> substr_in ''jobs.ashbyhq.com'' html
            \<and> \<not> substr_in ''greenhouse.io'' html \<and> \<not> substr_in ''grnh.se'' html
            \<and> substr_in ''lever.co'' html
            \<and> re_search_slug ''jobs.lever.co/'' html = None
            \<longrightarrow> detect_ats_from_html html page_url = (None, None))
       \<and> (\<not> substr_in ''ashby_jid='' html \<and> \<not> substr_in ''jobs.ashbyhq.com'' html
            \<and> \<not> substr_in ''greenhouse.io'' html \<and> \<not> substr_in ''grnh.se'' html
            \<and> \<not> substr_in ''lever.co'' html
            \<and> (substr_in ''apply.workable.com'' html \<or> substr_in ''workable.com'' html)
            \<and> re_search_slug ''apply.workable.com/'' html = None
            \<longrightarrow> detect_ats_from_html html page_url = (None, None))
       \<and> (\<not> substr_in ''ashby_jid='' html \<and> \<not> substr_in ''jobs.ashbyhq.com'' html
            \<and> \<not> substr_in ''greenhouse.io'' html \<and> \<not> substr_in ''grnh.se'' html
            \<and> \<not> substr_in ''lever.co'' html
            \<and> \<not> substr_in ''apply.workable.com'' html \<and> \<not> substr_in ''workable.com'' html
            \<and> (substr_in ''ats.rippling.com'' html \<or> substr_in ''rippling-ats.com'' html)
            \<and> re_search_slug ''ats.rippling.com/'' html = None
            \<longrightarrow> detect_ats_from_html html page_url = (None, None))"
  using assms unfolding detect_ats_from_html_def by simp

theorem detect_ats_from_html_no_slug_witness:
  "detect_ats_from_html ''<a href=?ashby_jid=1>Role</a>'' ''https://acme.com/careers''
       = (Some AshbyEmbedded, Some ''https://acme.com/careers'')
   \<and> detect_ats_from_html ''Boards move to jobs.ashbyhq.com soon'' ''https://acme.com/careers''
       = (None, None)
   \<and> detect_ats_from_html ''Powered by greenhouse.io'' ''https://acme.com/careers'' = (None, None)
   \<and> detect_ats_from_html ''Powered by lever.co'' ''https://acme.com/careers'' = (None, None)
   \<and> detect_ats_from_html ''Hiring with workable.com'' ''https://acme.com/careers'' = (None, None)
   \<and> detect_ats_from_html ''Payroll by rippling-ats.com'' ''https://acme.com/careers'' = (None, None)"
proof -
  note ev = re_search_slug_def slug_char_def
  have a: "detect_ats_from_html ''<a href=?ashby_jid=1>Role</a>'' ''https://acme.com/careers''
             = (Some AshbyEmbedded, Some ''https://acme.com/careers'')"
    using detect_ats_from_html_no_slug
            [of "''<a href=?ashby_jid=1>Role</a>''" "''https://acme.com/careers''"]
    by (simp add: ev)
  have b: "detect_ats_from_html ''Boards move to jobs.ashbyhq.com soon'' ''https://acme.com/careers''
             = (None, None)"
    using detect_ats_from_html_no_slug
            [of "''Boards move to jobs.ashbyhq.com soon''" "''https://acme.com/careers''"]
    by (simp add: ev)
  have c: "detect_ats_from_html ''Powered by greenhouse.io'' ''https://acme.com/careers'' = (None, None)"
    using detect_ats_from_html_no_slug
            [of "''Powered by greenhouse.io''" "''https://acme.com/careers''"]
    by (simp add: ev)
  have d: "detect_ats_from_html ''Powered by lever.co'' ''https://acme.com/careers'' = (None, None)"
    using detect_ats_from_html_no_slug
            [of "''Powered by lever.co''" "''https://acme.com/careers''"]
    by (simp add: ev)
  have e: "detect_ats_from_html ''Hiring with workable.com'' ''https://acme.com/careers'' = (None, None)"
    using detect_ats_from_html_no_slug
            [of "''Hiring with workable.com''" "''https://acme.com/careers''"]
    by (simp add: ev)
  have f: "detect_ats_from_html ''Payroll by rippling-ats.com'' ''https://acme.com/careers'' = (None, None)"
    using detect_ats_from_html_no_slug
            [of "''Payroll by rippling-ats.com''" "''https://acme.com/careers''"]
    by (simp add: ev)
  from a b c d e f show ?thesis by simp
qed

text \<open>
  C2 fails as stated: the page below carries the hosted-domain signature
  \<^verbatim>\<open>jobs.ashbyhq.com\<close>, the slug pattern does not match, and the classifier answers
  \<open>(None, None)\<close>, not \<open>(Some Ashby, None)\<close>.
\<close>

theorem detect_ats_from_html_counterexample:
  "substr_in ''jobs.ashbyhq.com'' ''Apply at jobs.ashbyhq.com today''
   \<and> re_search_slug ''jobs.ashbyhq.com/'' ''Apply at jobs.ashbyhq.com today'' = None
   \<and> detect_ats_from_html ''Apply at jobs.ashbyhq.com today'' ''https://acme.com/careers''
       = (None, None)
   \<and> detect_ats_from_html ''Apply at jobs.ashbyhq.com today'' ''https://acme.com/careers''
       \<noteq> (Some Ashby, None)"
  by (simp add: detect_ats_from_html_def re_search_slug_def slug_char_def)




section \<open>Exceptions and loops\<close>

lemma bindE_Inr: "bindE m f = Inr y \<longleftrightarrow> (\<exists>x. m = Inr x \<and> f x = Inr y)"
  by (cases m) (auto simp: bindE_def)

lemma bindE_InrE:
  assumes "bindE m f = Inr y"
  obtains x where "m = Inr x" "f x = Inr y"
  using assms by (auto simp: bindE_Inr)

lemma foldE_invariant:
  assumes "\<And>x st st'. P st \<Longrightarrow> f x st = Inr st' \<Longrightarrow> P st'"
    and "P st" and "foldE f xs st = Inr st'"
  shows "P st'"
  using assms(2,3)
proof (induction xs arbitrary: st)
  case Nil
  then show ?case by simp
next
  case (Cons x xs)
  then show ?case using assms(1) by (auto split: sum.splits)
qed

section \<open>Trimming\<close>

lemma strip_trimmed: "trimmed t \<Longrightarrow> strip t = t"
proof (cases "t = []")
  case True
  then show ?thesis by (simp add: strip_def lstrip_def rstrip_def)
next
  case False
  assume "trimmed t"
  with False have h: "\<not> isspace (hd t)" and l: "\<not> isspace (last t)"
    by (auto simp: trimmed_def)
  from False l have "dropWhile isspace (rev t) = rev t"
    by (cases "rev t") (auto simp: last_rev hd_rev[symmetric] dest!: arg_cong[where f=hd])
  then have r: "rstrip t = t" by (simp add: rstrip_def)
  from False h have "dropWhile isspace t = t" by (cases t) auto
  with r show ?thesis by (simp add: strip_def lstrip_def)
qed

lemma trimmed_strip: "trimmed (strip t)"
proof -
  let ?r = "rev (dropWhile isspace (rev t))"
  have r: "?r = [] \<or> \<not> isspace (last ?r)"
    by (metis hd_dropWhile last_rev rev_is_Nil_conv)
  have "strip t = dropWhile isspace ?r" by (simp add: strip_def lstrip_def rstrip_def)
  moreover have "dropWhile isspace ?r = [] \<or> \<not> isspace (hd (dropWhile isspace ?r))"
    by (metis hd_dropWhile)
  moreover have "dropWhile isspace ?r \<noteq> [] \<Longrightarrow> last (dropWhile isspace ?r) = last ?r"
    by (metis append_is_Nil_conv last_appendR takeWhile_dropWhile_id)
  ultimately show ?thesis using r unfolding trimmed_def
    by (metis dropWhile.simps(1))
qed

lemma strip_strip: "strip (strip t) = strip t"
  by (rule strip_trimmed) (rule trimmed_strip)

lemma trimmed_concat:
  "\<forall>p \<in> set ps. p \<noteq> [] \<and> trimmed p \<Longrightarrow> trimmed (concat ps)"
proof (induction ps)
  case Nil
  then show ?case by (simp add: trimmed_def)
next
  case (Cons p ps)
  then have p: "p \<noteq> []" "\<not> isspace (hd p)" "\<not> isspace (last p)" and t: "trimmed (concat ps)"
    by (auto simp: trimmed_def)
  show ?case
  proof (cases "concat ps = []")
    case True
    with p show ?thesis by (simp add: trimmed_def)
  next
    case False
    with t have l: "\<not> isspace (last (concat ps))" unfolding trimmed_def by blast
    have "hd (p @ concat ps) = hd p" using p(1) by simp
    moreover have "last (p @ concat ps) = last (concat ps)"
      using False by (simp only: last_append if_False)
    ultimately show ?thesis using p l unfolding trimmed_def by (simp only: concat.simps) simp
  qed
qed

lemma trimmed_get_text_strip: "trimmed (get_text_strip strs)"
  unfolding get_text_strip_def stripped_strings_def
  by (rule trimmed_concat) (auto simp: trimmed_strip)

lemma strip_get_text_strip: "strip (get_text_strip strs) = get_text_strip strs"
  by (rule strip_trimmed) (rule trimmed_get_text_strip)

lemma make_job_title: "make_job (JStr t) d l u c = Inr j \<Longrightarrow> title j = strip t"
  by (auto simp: make_job_def split: sum.splits)

section \<open>Titles of the embedded adapter\<close>

lemma seen_inv_add:
  assumes "seen_inv (jobs, seen)" "title j \<notin> seen"
  shows "seen_inv (jobs @ [j], insert (title j) seen)"
  using assms by (auto simp: seen_inv_def)

lemma embedded_jid_link_inv:
  assumes "seen_inv st" "embedded_jid_link env u c a st = Inr st'"
  shows "seen_inv st'"
proof -
  obtain jobs seen where st: "st = (jobs, seen)" by (cases st)
  show ?thesis
    using assms unfolding st embedded_jid_link_def
    by (auto simp: Let_def bindE_Inr strip_strip split: if_splits dest!: make_job_title)
       (metis seen_inv_add)+
qed

lemma embedded_board_link_inv:
  assumes "seen_inv st" "embedded_board_link env u c sl a st = Inr st'"
  shows "seen_inv st'"
proof -
  obtain jobs seen where st: "st = (jobs, seen)" by (cases st)
  show ?thesis
    using assms unfolding st embedded_board_link_def
    by (auto simp: Let_def bindE_Inr strip_get_text_strip split: if_splits dest!: make_job_title)
       (metis seen_inv_add)+
qed

lemma embedded_parse_distinct:
  assumes "embedded_parse env u c html = Inr jobs"
  shows "distinct (map title jobs)"
proof -
  have i0: "seen_inv ([], {})" by (simp add: seen_inv_def)
  obtain sp where sp: "BeautifulSoup env html = Inr sp" and
    r1: "bindE (foldE (embedded_jid_link env u c) (anchors sp) ([], {})) (\<lambda>(jobs, seen).
       if jobs = [] then
         bindE (foldE (embedded_board_link env u c
                        (re_search_run ''ashbyhq.com/'' (\<lambda>c. c \<noteq> CHR ''/'') u))
                  (anchors sp) (jobs, seen))
           (\<lambda>(jobs', seen'). Inr jobs')
       else Inr jobs) = Inr jobs"
    using assms unfolding embedded_parse_def by (rule bindE_InrE)
  from r1 obtain st1 where
    f0: "foldE (embedded_jid_link env u c) (anchors sp) ([], {}) = Inr st1"
    and r2: "(case st1 of (jobs, seen) \<Rightarrow>
       if jobs = [] then
         bindE (foldE (embedded_board_link env u c
                        (re_search_run ''ashbyhq.com/'' (\<lambda>c. c \<noteq> CHR ''/'') u))
                  (anchors sp) (jobs, seen))
           (\<lambda>(jobs', seen'). Inr jobs')
       else Inr jobs) = Inr jobs"
    by (rule bindE_InrE)
  obtain jobs1 seen1 where st1: "st1 = (jobs1, seen1)" by (cases st1)
  note f1 = f0[unfolded st1]
  from r2 have rest: "(if jobs1 = [] then
         bindE (foldE (embedded_board_link env u c
                        (re_search_run ''ashbyhq.com/'' (\<lambda>c. c \<noteq> CHR ''/'') u))
                  (anchors sp) (jobs1, seen1))
           (\<lambda>(jobs', seen'). Inr jobs')
       else Inr jobs1) = Inr jobs"
    unfolding st1 by simp
  have i1: "seen_inv (jobs1, seen1)"
    using embedded_jid_link_inv i0 f1 by (rule foldE_invariant[where P=seen_inv])
  show ?thesis
  proof (cases "jobs1 = []")
    case False
    with rest i1 show ?thesis by (simp add: seen_inv_def)
  next
    case True
    with rest obtain seen2 where
      f2: "foldE (embedded_board_link env u c
                        (re_search_run ''ashbyhq.com/'' (\<lambda>c. c \<noteq> CHR ''/'') u))
                  (anchors sp) (jobs1, seen1) = Inr (jobs, seen2)"
      by (auto simp: bindE_Inr)
    have "seen_inv (jobs, seen2)"
      using embedded_board_link_inv i1 f2 by (rule foldE_invariant[where P=seen_inv])
    then show ?thesis by (simp add: seen_inv_def)
  qed
qed

text \<open>
  C10. Whenever \<open>scrape_ashby_embedded\<close> returns a job list, no two of its records
  have the same title: both link patterns skip a title that is already in the
  \<open>seen\<close> set, and the title stored in a record is the one that was looked up.
\<close>

theorem scrape_ashby_embedded_distinct_titles:
  "scrape_ashby_embedded env jobs_url cname s = (Inr jobs, s') \<Longrightarrow> distinct (map title jobs)"
  unfolding scrape_ashby_embedded_def
  by (auto split: prod.splits option.splits if_splits dest: embedded_parse_distinct)

theorem scrape_ashby_embedded_distinct_titles_witness:
  "scrape_ashby_embedded widget_world ''https://acme.com/careers'' ''Acme'' [] =
     (Inr [\<lparr>title = ''Engineer'', department = ''General'', location = ''Not specified'',
            url = JStr ''https://acme.com/careers?ashby_jid=1'', company = ''Acme'',
            company_website = ''''\<rparr>,
           \<lparr>title = ''Designer'', department = ''General'', location = ''Not specified'',
            url = JStr ''https://acme.com/careers?ashby_jid=3'', company = ''Acme'',
            company_website = ''''\<rparr>],
      [Get ''https://acme.com/careers''])
   \<and> distinct [''Engineer'', ''Designer'']"
proof -
  have e: "scrape_ashby_embedded widget_world ''https://acme.com/careers'' ''Acme'' [] =
     (Inr [\<lparr>title = ''Engineer'', department = ''General'', location = ''Not specified'',
            url = JStr ''https://acme.com/careers?ashby_jid=1'', company = ''Acme'',
            company_website = ''''\<rparr>,
           \<lparr>title = ''Designer'', department = ''General'', location = ''Not specified'',
            url = JStr ''https://acme.com/careers?ashby_jid=3'', company = ''Acme'',
            company_website = ''''\<rparr>],
      [Get ''https://acme.com/careers''])"
    by (simp add: scrape_ashby_embedded_def fetch_html_def widget_world_def offline_def
          ok_response_def widget_html_def embedded_parse_def bindE_def embedded_jid_link_def
          make_job_def py_or_def group_or_empty_def parent_text_def hexdash_char_def
          string_defs Let_def)
  from scrape_ashby_embedded_distinct_titles [OF e] e show ?thesis by simp
qed

section \<open>Priority of the generic strategies\<close>




section \<open>Lever and Ashby\<close>

text \<open>
  C9 (as amended). When the Lever postings request answers with a JSON body that is
  not an array, the \<open>ValueError\<close> raised for it is caught and \<open>scrape_lever\<close> behaves
  exactly as \<open>scrape_generic\<close> on the fallback URL, run after the one API call: it
  returns the job list generic extraction returns, and it raises if and only if generic
  extraction itself raises.
\<close>

theorem scrape_lever_non_array:
  assumes "requests_get env s (lever_api slug) = Inr r"
    and "r_json r = Inr d"
    and "\<forall>xs. d \<noteq> JArr xs"
  shows "scrape_lever env slug cname fallback_url s
           = scrape_generic env fallback_url cname (s @ [Get (lever_api slug)])"
proof -
  from assms(3) have "lever_parse r fallback_url cname = Inl ValueError"
    unfolding lever_parse_def using assms(2) by (cases d) (simp_all add: bindE_def)
  with assms(1) show ?thesis
    by (simp add: scrape_lever_def lever_api_def bindE_def)
qed

theorem scrape_lever_non_array_witness:
  "scrape_lever
     (listing_world [(lever_api ''owner'', ok_response (lever_api ''owner'') [] (Inr lever_error)),
                     (''https://jobs.lever.co/owner'',
                      ok_response ''https://jobs.lever.co/owner'' listing_html no_json)])
     ''owner'' ''Owner'' ''https://jobs.lever.co/owner'' []
   = (Inr [\<lparr>title = ''Staff Engineer'', department = ''Engineering'',
             location = ''Not specified'', url = JStr ''https://acme.com/jobs/1'',
             company = ''Owner'', company_website = ''''\<rparr>],
      [Get ''https://api.lever.co/v0/postings/owner?mode=json'',
       Get ''https://jobs.lever.co/owner''])"
proof -
  let ?w = "listing_world
              [(lever_api ''owner'', ok_response (lever_api ''owner'') [] (Inr lever_error)),
               (''https://jobs.lever.co/owner'',
                ok_response ''https://jobs.lever.co/owner'' listing_html no_json)]"
  have g: "requests_get ?w [] (lever_api ''owner'')
             = Inr (ok_response (lever_api ''owner'') [] (Inr lever_error))"
    by (simp add: listing_world_def offline_def web_def lever_api_def)
  have j: "r_json (ok_response (lever_api ''owner'') [] (Inr lever_error)) = Inr lever_error"
    by (simp add: ok_response_def)
  have a: "\<forall>xs. lever_error \<noteq> JArr xs"
    by (simp add: lever_error_def)
  have "scrape_generic ?w ''https://jobs.lever.co/owner'' ''Owner'' [Get (lever_api ''owner'')]
          = (Inr [\<lparr>title = ''Staff Engineer'', department = ''Engineering'',
                    location = ''Not specified'', url = JStr ''https://acme.com/jobs/1'',
                    company = ''Owner'', company_website = ''''\<rparr>],
             [Get ''https://api.lever.co/v0/postings/owner?mode=json'',
              Get ''https://jobs.lever.co/owner''])"
    by (simp add: listing_world_def listing_soup_def listing_html_def lever_api_def
          posting_src_def posting_json_def eval_defs string_defs)
  with scrape_lever_non_array [OF g j a, of "''Owner''" "''https://jobs.lever.co/owner''"]
  show ?thesis by simp
qed

text \<open>
  C9 fails as stated: Lever answers with an error object, the fallback page has a
  container whose link \<open>urljoin\<close> rejects, generic extraction raises outside any
  \<^verbatim>\<open>try\<close>, and the exception leaves \<open>scrape_lever\<close>.
\<close>

theorem scrape_lever_counterexample:
  "scrape_lever
     (bracket_world [(lever_api ''owner'', ok_response (lever_api ''owner'') [] (Inr lever_error)),
                     (''https://jobs.lever.co/owner'',
                      ok_response ''https://jobs.lever.co/owner'' bracket_html no_json)])
     ''owner'' ''Owner'' ''https://jobs.lever.co/owner'' []
   = (Inl ValueError,
      [Get ''https://api.lever.co/v0/postings/owner?mode=json'',
       Get ''https://jobs.lever.co/owner''])"
  by (simp add: scrape_lever_def lever_parse_def lever_error_def lever_api_def
        bracket_world_def bracket_soup_def bracket_html_def eval_defs string_defs)



section \<open>The log only grows\<close>

lemma fetch_html_log:
  "fetch_html env u p s = (r, s') \<Longrightarrow> length s < length s'"
  by (auto simp: fetch_html_def Let_def split: if_splits sum.splits option.splits prod.splits)

lemma check_links_log:
  "check_links env u ls s = (r, s') \<Longrightarrow> length s \<le> length s'"
proof (induction ls arbitrary: s)
  case Nil
  then show ?case by simp
next
  case (Cons a ls)
  show ?case
    using Cons.prems
    apply (simp split: if_splits sum.splits prod.splits option.splits)
    by (auto dest!: Cons.IH fetch_html_log)
qed

lemma check_page_log:
  "check_page env u html s = (r, s') \<Longrightarrow> length s \<le> length s'"
  by (auto simp: check_page_def split: prod.splits option.splits sum.splits dest: check_links_log)

lemma try_paths_log:
  "try_paths env base ps s = (r, s') \<Longrightarrow> length s \<le> length s'"
proof (induction ps arbitrary: s)
  case Nil
  then show ?case by simp
next
  case (Cons p ps)
  show ?case
    using Cons.prems
    apply (simp split: if_splits sum.splits prod.splits option.splits)
    by (auto dest!: Cons.IH check_page_log)
qed

lemma find_jobs_page_log:
  "find_jobs_page env base s = (r, s') \<Longrightarrow> length s < length s'"
  unfolding find_jobs_page_def Let_def
  by (auto split: prod.splits option.splits if_splits sum.splits
           dest!: fetch_html_log try_paths_log check_page_log)

section \<open>Where exceptions can come from\<close>

lemma returns_Inr [simp]: "returns (Inr x, s)"
  by (simp add: returns_def)




























section \<open>An unreachable website\<close>

lemma rstrip_slash_idem: "rstrip_slash (rstrip_slash w) = rstrip_slash w"
  by (simp add: rstrip_slash_def)

lemma try_paths_unreachable:
  "unreachable env base \<Longrightarrow>
     try_paths env base ps s = (no_page, s @ map (\<lambda>p. Get (base @ p)) ps)"
proof (induction ps arbitrary: s)
  case Nil
  show ?case by simp
next
  case (Cons p ps)
  from Cons.prems obtain e where "requests_get env s (base @ p) = Inl e"
    unfolding unreachable_def by blast
  with Cons.IH[OF Cons.prems] show ?case by simp
qed

lemma find_jobs_page_unreachable:
  assumes "unreachable env (rstrip_slash base)"
  shows "find_jobs_page env base s =
           (Inr no_page,
            s @ Get (rstrip_slash base) # map (\<lambda>p. Get (rstrip_slash base @ p)) JOBS_PATHS)"
proof -
  from assms obtain e where "requests_get env s (rstrip_slash base @ []) = Inl e"
    unfolding unreachable_def by blast
  then have "fetch_html env (rstrip_slash base) False s = (None, s @ [Get (rstrip_slash base)])"
    by (simp add: fetch_html_def)
  then show ?thesis
    by (simp add: find_jobs_page_def Let_def try_paths_unreachable[OF assms])
qed

lemma auto_detect_unreachable:
  assumes "site \<noteq> []" "rstrip_slash site = site" "unreachable env site"
  shows "auto_detect env nm site s =
           (Inr ([], Some ''no jobs page found''),
            s @ Get site # map (\<lambda>p. Get (site @ p)) JOBS_PATHS)"
  using find_jobs_page_unreachable[of env site s] assms
  by (simp add: auto_detect_def no_page_def)

lemma scrape_company_unreachable:
  assumes "KNOWN_ATS (lower (name c)) = None" "site_of c \<noteq> []" "unreachable env (site_of c)"
  shows "scrape_company env c s =
           (Inr ([], Some ''no jobs page found''),
            s @ Get (site_of c) # map (\<lambda>p. Get (site_of c @ p)) JOBS_PATHS)"
proof -
  have "rstrip_slash (site_of c) = site_of c"
    by (simp add: site_of_def rstrip_slash_idem)
  then have "find_jobs_page env (site_of c) s =
           (Inr no_page, s @ Get (site_of c) # map (\<lambda>p. Get (site_of c @ p)) JOBS_PATHS)"
    using find_jobs_page_unreachable[of env "site_of c" s] assms(3) by simp
  then show ?thesis
    using assms(1,2)
    by (simp add: scrape_company_def Let_def auto_detect_def no_page_def site_of_def[symmetric])
qed


lemma unreachable_offline: "unreachable offline u"
  by (simp add: unreachable_def offline_def)

lemma known_faire:
  "KNOWN_ATS (lower ''Faire'')
     = Some (Greenhouse, Some ''Faire'', ''https://boards.greenhouse.io/faire'')"
  by code_simp

lemma known_acme: "KNOWN_ATS (lower ''Acme'') = None"
  by code_simp

lemma site_acme:
  "site_of \<lparr>name = ''Acme'', website = Some ''https://acme.com/''\<rparr> = ''https://acme.com''"
  by (simp add: site_of_def rstrip_slash_def)

section \<open>The orchestrator\<close>




text \<open>
  C4. An outcome of \<open>scrape_company\<close> that carries a failure reason carries no job;
  the reason is then one of the two messages of the function.
\<close>

theorem scrape_company_exclusive:
  "scrape_company env c s = (Inr (jobs, Some reason), s')
     \<Longrightarrow> jobs = [] \<and> (reason = ''no website'' \<or> reason = ''no jobs page found'')"
  unfolding scrape_company_def auto_detect_def Let_def
  by (auto split: option.splits prod.splits sum.splits if_splits)

theorem scrape_company_exclusive_witness:
  "\<exists>jobs reason s'.
     scrape_company offline \<lparr>name = ''Acme'', website = Some ''https://acme.com/''\<rparr> []
       = (Inr (jobs, Some reason), s')
     \<and> jobs = [] \<and> reason = ''no jobs page found''"
proof -
  have e: "scrape_company offline \<lparr>name = ''Acme'', website = Some ''https://acme.com/''\<rparr> [] =
      (Inr ([], Some ''no jobs page found''),
       [] @ Get ''https://acme.com'' # map (\<lambda>p. Get (''https://acme.com'' @ p)) JOBS_PATHS)"
    using scrape_company_unreachable
            [of "\<lparr>name = ''Acme'', website = Some ''https://acme.com/''\<rparr>" offline "[]"]
      unreachable_offline known_acme site_acme
    by simp
  then obtain jobs reason s' where
    o: "scrape_company offline \<lparr>name = ''Acme'', website = Some ''https://acme.com/''\<rparr> []
          = (Inr (jobs, Some reason), s')"
    and r: "reason = ''no jobs page found''"
    by blast
  from scrape_company_exclusive [OF o] have "jobs = []" by simp
  with o r show ?thesis by blast
qed


lemma faire_offline:
  "route_to_scraper offline Greenhouse (Some ''Faire'') ''Faire''
     ''https://boards.greenhouse.io/faire'' [] =
   (Inr [], [Get ''https://boards-api.greenhouse.io/v1/boards/Faire/jobs?content=true'',
             Get ''https://boards.greenhouse.io/faire''])"
  by (simp add: greenhouse_api_def route_to_scraper_def
        scrape_greenhouse_def greenhouse_parse_def greenhouse_job_def eval_defs)


lemma faire_route:
  "route_to_scraper faire_world Greenhouse (Some ''Faire'') ''Faire''
     ''https://boards.greenhouse.io/faire'' [] =
   (Inr [\<lparr>title = ''Buyer'', department = ''Retail'', location = ''Remote'',
           url = JStr ''https://boards.greenhouse.io/faire/jobs/1'', company = ''Faire'',
           company_website = ''''\<rparr>],
    [Get ''https://boards-api.greenhouse.io/v1/boards/Faire/jobs?content=true''])"
  by (simp add: faire_world_def faire_board_def greenhouse_api_def route_to_scraper_def
        scrape_greenhouse_def greenhouse_parse_def greenhouse_job_def eval_defs string_defs)


text \<open>
  C6. For a company whose lower-cased name is in the override table: when the adapter
  of the override returns a non-empty job list, \<open>scrape_company\<close> returns those
  jobs, stamped with the company website, without a failure reason, and the log is the
  one the adapter left, so the locator was not run (it always adds a request to the
  log); when the adapter returns no job, \<open>scrape_company\<close> continues with
  auto-detection from the state the adapter left.
\<close>

theorem scrape_company_override:
  assumes "KNOWN_ATS (lower (name c)) = Some (a, slug, jobs_url)"
    and "route_to_scraper env a slug (name c) jobs_url s = (Inr jobs, s1)"
  shows "(jobs \<noteq> [] \<longrightarrow> scrape_company env c s = (Inr (stamp (site_of c) jobs, None), s1))
       \<and> (jobs = [] \<longrightarrow> scrape_company env c s = auto_detect env (name c) (site_of c) s1)
       \<and> (\<forall>r s2. find_jobs_page env (site_of c) s1 = (r, s2) \<longrightarrow> length s1 < length s2)"
  using assms by (auto simp: scrape_company_def site_of_def dest: find_jobs_page_log)

theorem scrape_company_override_witness:
  "scrape_company faire_world \<lparr>name = ''Faire'', website = Some ''https://faire.com''\<rparr> [] =
     (Inr ([\<lparr>title = ''Buyer'', department = ''Retail'', location = ''Remote'',
             url = JStr ''https://boards.greenhouse.io/faire/jobs/1'', company = ''Faire'',
             company_website = ''https://faire.com''\<rparr>], None),
      [Get ''https://boards-api.greenhouse.io/v1/boards/Faire/jobs?content=true''])
   \<and> scrape_company offline \<lparr>name = ''Faire'', website = Some ''https://faire.com''\<rparr> [] =
     (Inr ([], Some ''no jobs page found''),
      [Get ''https://boards-api.greenhouse.io/v1/boards/Faire/jobs?content=true'',
       Get ''https://boards.greenhouse.io/faire'', Get ''https://faire.com'']
      @ map (\<lambda>p. Get (''https://faire.com'' @ p)) JOBS_PATHS)"
proof -
  let ?c = "\<lparr>name = ''Faire'', website = Some ''https://faire.com''\<rparr>"
  have k: "KNOWN_ATS (lower (name ?c))
             = Some (Greenhouse, Some ''Faire'', ''https://boards.greenhouse.io/faire'')"
    using known_faire by simp
  have r: "route_to_scraper faire_world Greenhouse (Some ''Faire'') (name ?c)
             ''https://boards.greenhouse.io/faire'' [] =
           (Inr [\<lparr>title = ''Buyer'', department = ''Retail'', location = ''Remote'',
                   url = JStr ''https://boards.greenhouse.io/faire/jobs/1'', company = ''Faire'',
                   company_website = ''''\<rparr>],
            [Get ''https://boards-api.greenhouse.io/v1/boards/Faire/jobs?content=true''])"
    using faire_route by simp
  have r0: "route_to_scraper offline Greenhouse (Some ''Faire'') (name ?c)
             ''https://boards.greenhouse.io/faire'' [] =
           (Inr [], [Get ''https://boards-api.greenhouse.io/v1/boards/Faire/jobs?content=true'',
                     Get ''https://boards.greenhouse.io/faire''])"
    using faire_offline by simp
  have st: "site_of ?c = ''https://faire.com''"
    by (simp add: site_of_def rstrip_slash_def)
  have a: "auto_detect offline ''Faire'' ''https://faire.com''
             [Get ''https://boards-api.greenhouse.io/v1/boards/Faire/jobs?content=true'',
              Get ''https://boards.greenhouse.io/faire'']
           = (Inr ([], Some ''no jobs page found''),
              [Get ''https://boards-api.greenhouse.io/v1/boards/Faire/jobs?content=true'',
               Get ''https://boards.greenhouse.io/faire'']
              @ Get ''https://faire.com'' # map (\<lambda>p. Get (''https://faire.com'' @ p)) JOBS_PATHS)"
    by (rule auto_detect_unreachable) (simp_all add: rstrip_slash_def unreachable_offline)
  from scrape_company_override [OF k r] scrape_company_override [OF k r0]
  show ?thesis
    by (simp add: stamp_def st a)
qed




end
